theory Spec2Isabelle
  imports Complex_Main "HOL-Library.AList"
begin

section \<open>JSON values and the Python operations the shims apply to them\<close>

text \<open>
  A frame is what \<^verbatim>\<open>json.loads\<close> returns: any JSON value. Objects are Python
  dicts, kept as association lists in insertion order; a lookup takes the first
  binding of a key. Number literals without fraction or exponent are Python ints,
  the others are floats, carried here by their (rational) value.
\<close>

datatype json =
    JNull
  | JBool bool
  | JInt int
  | JFloat rat
  | JStr string
  | JArr "json list"
  | JObj "(string \<times> json) list"

text \<open>
  Text produced by an f-string: literal pieces, \<^verbatim>\<open>str()\<close> of a JSON value that is
  not itself a string, and messages the interpreter writes for a built-in exception.
\<close>

datatype piece = Lit string | StrOf json | Builtin string

type_synonym fstring = "piece list"

datatype py_error =
    TypeError
  | AttributeError
  | KeyError string
  | RuntimeError fstring
  | TimeoutError fstring
  | ConnectionClosed

datatype level = DEBUG | INFO | ERROR

type_synonym log_entry = "level \<times> fstring"

text \<open>\<^verbatim>\<open>f"{v}"\<close>: a string is interpolated as it is.\<close>

fun fmt :: "json \<Rightarrow> fstring" where
  "fmt (JStr s) = [Lit s]"
| "fmt v = [StrOf v]"

text \<open>\<^verbatim>\<open>str(e)\<close> of an exception.\<close>

fun exc_str :: "py_error \<Rightarrow> fstring" where
  "exc_str (RuntimeError m) = m"
| "exc_str (TimeoutError m) = m"
| "exc_str (KeyError k) = [Lit (CHR 0x27 # k @ [CHR 0x27])]"
| "exc_str TypeError = [Builtin ''TypeError'']"
| "exc_str AttributeError = [Builtin ''AttributeError'']"
| "exc_str ConnectionClosed = [Builtin ''ConnectionClosed'']"

text \<open>\<^verbatim>\<open>needle in s\<close> on two strings: \<open>needle\<close> occurs in \<open>s\<close> as a contiguous run.\<close>

fun is_prefix :: "string \<Rightarrow> string \<Rightarrow> bool" where
  "is_prefix [] s = True"
| "is_prefix (c # cs) [] = False"
| "is_prefix (c # cs) (d # ds) = (c = d \<and> is_prefix cs ds)"

fun occurs_in :: "string \<Rightarrow> string \<Rightarrow> bool" where
  "occurs_in needle [] = (needle = [])"
| "occurs_in needle (c # cs) = (is_prefix needle (c # cs) \<or> occurs_in needle cs)"

text \<open>
  \<^verbatim>\<open>k in data\<close> for a string \<open>k\<close>: key membership on a dict, element membership on a
  list, substring test on a string, \<^verbatim>\<open>TypeError\<close> on None, a bool or a number.
\<close>

fun py_in :: "string \<Rightarrow> json \<Rightarrow> py_error + bool" where
  "py_in k (JObj kvs) = Inr (map_of kvs k \<noteq> None)"
| "py_in k (JArr xs) = Inr (JStr k \<in> set xs)"
| "py_in k (JStr s) = Inr (occurs_in k s)"
| "py_in k v = Inl TypeError"

text \<open>
  \<^verbatim>\<open>data[k]\<close> for a string \<open>k\<close>: \<^verbatim>\<open>KeyError\<close> on a dict without the key,
  \<^verbatim>\<open>TypeError\<close> on everything that is not a dict (a list or a string takes integer
  indices only).
\<close>

fun py_getitem :: "json \<Rightarrow> string \<Rightarrow> py_error + json" where
  "py_getitem (JObj kvs) k = (case map_of kvs k of None \<Rightarrow> Inl (KeyError k) | Some v \<Rightarrow> Inr v)"
| "py_getitem v k = Inl TypeError"

text \<open>\<^verbatim>\<open>data.get(k, default)\<close>: only a dict has the method.\<close>

fun py_get :: "json \<Rightarrow> string \<Rightarrow> json \<Rightarrow> py_error + json" where
  "py_get (JObj kvs) k d = Inr (case map_of kvs k of None \<Rightarrow> d | Some v \<Rightarrow> v)"
| "py_get v k d = Inl AttributeError"

text \<open>Truth value of a JSON value in an \<^verbatim>\<open>if\<close>.\<close>

fun truthy :: "json \<Rightarrow> bool" where
  "truthy JNull = False"
| "truthy (JBool b) = b"
| "truthy (JInt i) = (i \<noteq> 0)"
| "truthy (JFloat r) = (r \<noteq> 0)"
| "truthy (JStr s) = (s \<noteq> [])"
| "truthy (JArr xs) = (xs \<noteq> [])"
| "truthy (JObj kvs) = (kvs \<noteq> [])"

text \<open>
  A value used as a dict key. Lists and dicts are unhashable (\<^verbatim>\<open>TypeError\<close>). Equal
  numbers are the same key: \<^verbatim>\<open>True == 1 == 1.0\<close>, so the key is kept in a normal
  form (a bool or an integral float as the int it equals).
\<close>

fun hash_key :: "json \<Rightarrow> py_error + json" where
  "hash_key JNull = Inr JNull"
| "hash_key (JBool b) = Inr (JInt (if b then 1 else 0))"
| "hash_key (JInt i) = Inr (JInt i)"
| "hash_key (JFloat r) = Inr (if of_int \<lfloor>r\<rfloor> = r then JInt \<lfloor>r\<rfloor> else JFloat r)"
| "hash_key (JStr s) = Inr (JStr s)"
| "hash_key (JArr xs) = Inl TypeError"
| "hash_key (JObj kvs) = Inl TypeError"

text \<open>\<^verbatim>\<open>s.split(".")[0]\<close>: the text before the first dot, all of it when there is none.\<close>

definition split_dot_first :: "string \<Rightarrow> string" where
  "split_dot_first s = takeWhile (\<lambda>c. c \<noteq> CHR ''.'') s"

text \<open>\<^verbatim>\<open>v.split(".")[0]\<close> on a JSON value: only a string has the method.\<close>

fun py_split_first :: "json \<Rightarrow> py_error + string" where
  "py_split_first (JStr s) = Inr (split_dot_first s)"
| "py_split_first v = Inl AttributeError"

text \<open>\<^verbatim>\<open>d.update(other)\<close>: each key of \<open>other\<close> in order; a key already present keeps
  its place and takes the new value, a new key goes to the end.\<close>

definition dict_update :: "('k \<times> 'v) list \<Rightarrow> ('k \<times> 'v) list \<Rightarrow> ('k \<times> 'v) list" where
  "dict_update d other = fold (\<lambda>(k, v). AList.update k v) other d"

section \<open>Module state of the protocol shims\<close>

text \<open>
  The module-level globals \<^verbatim>\<open>_cdp_message_id\<close>, \<^verbatim>\<open>_cdp_responses\<close> and
  \<^verbatim>\<open>_cdp_events\<close>. The simple variant (\<^verbatim>\<open>simple_debug.py\<close>) has the first two
  only; its code never touches the third field.
\<close>

record globals =
  cdp_message_id :: int
  cdp_responses :: "json \<rightharpoonup> json"
  cdp_events :: "string \<rightharpoonup> json list"

definition init_globals :: globals where
  "init_globals = \<lparr>cdp_message_id = 0, cdp_responses = Map.empty, cdp_events = Map.empty\<rparr>"

datatype variant = Rich | Simple

text \<open>
  What the transport yields, by what \<^verbatim>\<open>json.loads\<close> makes of it: text it rejects
  with \<^verbatim>\<open>JSONDecodeError\<close> (kept as it came), text or bytes on which it raises
  another exception (\<^verbatim>\<open>RecursionError\<close> on deep nesting, \<^verbatim>\<open>UnicodeDecodeError\<close>
  on bytes that are not UTF-8; kept is the name of the exception), or a parsed frame.
\<close>

datatype message = BadText string | LoadsError string | Frame json

section \<open>The listener loops\<close>

text \<open>
  \<^verbatim>\<open>server.py\<close>, \<^verbatim>\<open>cdp_listener\<close>, the body of the \<^verbatim>\<open>try\<close> for one parsed frame.
  The result is the new state and the log lines written, or the exception raised.
  Every statement that can raise comes before the first write to a global, so an
  exception leaves the state as it was.
\<close>

text \<open>The slice \<^verbatim>\<open>xs[-1000:]\<close>: the last 1000 elements, all of them when there are fewer.\<close>

definition last_1000 :: "'a list \<Rightarrow> 'a list" where
  "last_1000 xs = drop (length xs - 1000) xs"

text \<open>Lines 54 to 60: the event goes to the end of its category's buffer, which is
  cut back to its last 1000 entries when it has grown beyond 1000.\<close>

definition record_event :: "globals \<Rightarrow> string \<Rightarrow> json \<Rightarrow> globals" where
  "record_event g event_type data =
     (let buf = (case cdp_events g event_type of None \<Rightarrow> [] | Some xs \<Rightarrow> xs) @ [data];
          buf' = (if length buf > 1000 then last_1000 buf else buf)
      in g\<lparr>cdp_events := (cdp_events g)(event_type \<mapsto> buf')\<rparr>)"

definition cdp_listener_body :: "globals \<Rightarrow> json \<Rightarrow> py_error + (globals \<times> log_entry list)" where
  "cdp_listener_body g data =
     (case py_in ''id'' data of
        Inl e \<Rightarrow> Inl e
      | Inr True \<Rightarrow>
          (case py_getitem data ''id'' of
             Inl e \<Rightarrow> Inl e
           | Inr i \<Rightarrow>
               (case hash_key i of
                  Inl e \<Rightarrow> Inl e
                | Inr k \<Rightarrow> Inr (g\<lparr>cdp_responses := (cdp_responses g)(k \<mapsto> data)\<rparr>, [])))
      | Inr False \<Rightarrow>
          (case py_in ''method'' data of
             Inl e \<Rightarrow> Inl e
           | Inr False \<Rightarrow> Inr (g, [])
           | Inr True \<Rightarrow>
               (case py_getitem data ''method'' of
                  Inl e \<Rightarrow> Inl e
                | Inr m \<Rightarrow>
                    (case py_split_first m of
                       Inl e \<Rightarrow> Inl e
                     | Inr event_type \<Rightarrow>
                         Inr (record_event g event_type data,
                              [(DEBUG, Lit ''Received CDP Event: '' # fmt m)])))))"

text \<open>One iteration of \<^verbatim>\<open>async for message in ws\<close> with its two \<^verbatim>\<open>except\<close> clauses.\<close>

definition cdp_listener :: "globals \<Rightarrow> message \<Rightarrow> globals \<times> log_entry list" where
  "cdp_listener g msg =
     (case msg of
        BadText raw \<Rightarrow> (g, [(ERROR, [Lit ''Failed to decode CDP message: '', Lit raw])])
      | LoadsError name \<Rightarrow>
          (g, [(ERROR, [Lit ''Error processing CDP message: '', Builtin name])])
      | Frame data \<Rightarrow>
          (case cdp_listener_body g data of
             Inl e \<Rightarrow> (g, [(ERROR, Lit ''Error processing CDP message: '' # exc_str e)])
           | Inr r \<Rightarrow> r))"

text \<open>\<^verbatim>\<open>simple_debug.py\<close>, \<^verbatim>\<open>listen_for_messages\<close>: responses only, one \<^verbatim>\<open>except\<close>.\<close>

definition listen_body :: "globals \<Rightarrow> json \<Rightarrow> py_error + globals" where
  "listen_body g data =
     (case py_in ''id'' data of
        Inl e \<Rightarrow> Inl e
      | Inr False \<Rightarrow> Inr g
      | Inr True \<Rightarrow>
          (case py_getitem data ''id'' of
             Inl e \<Rightarrow> Inl e
           | Inr i \<Rightarrow>
               (case hash_key i of
                  Inl e \<Rightarrow> Inl e
                | Inr k \<Rightarrow> Inr (g\<lparr>cdp_responses := (cdp_responses g)(k \<mapsto> data)\<rparr>))))"

definition listen_for_messages :: "globals \<Rightarrow> message \<Rightarrow> globals \<times> log_entry list" where
  "listen_for_messages g msg =
     (case msg of
        BadText raw \<Rightarrow>
          (g, [(ERROR, [Lit ''Error processing message: '', Builtin ''JSONDecodeError''])])
      | LoadsError name \<Rightarrow> (g, [(ERROR, [Lit ''Error processing message: '', Builtin name])])
      | Frame data \<Rightarrow>
          (case listen_body g data of
             Inl e \<Rightarrow> (g, [(ERROR, Lit ''Error processing message: '' # exc_str e)])
           | Inr g' \<Rightarrow> (g', [])))"

definition listener :: "variant \<Rightarrow> globals \<Rightarrow> message \<Rightarrow> globals \<times> log_entry list" where
  "listener v = (case v of Rich \<Rightarrow> cdp_listener | Simple \<Rightarrow> listen_for_messages)"

section \<open>Sending a command and waiting for its response\<close>

text \<open>
  The connection as a caller sees it: the globals, the commands written to the
  websocket so far (oldest first), and whether the websocket is open. The
  \<^verbatim>\<open>websockets\<close> library raises \<^verbatim>\<open>ConnectionClosed\<close> from \<^verbatim>\<open>send\<close> on a closed
  connection.
\<close>

record conn =
  glob :: globals
  sent :: "json list"
  ws_open :: bool

text \<open>
  The whole system: the connection, the listener task (alive or not), the calls
  of \<^verbatim>\<open>send_cdp_command\<close> suspended in their wait loop (by the identifier they
  allocated, with the method and the number of checks that found nothing), and what
  each finished call returned or raised.
\<close>

record sys = conn +
  listening :: bool
  waiting :: "int \<rightharpoonup> (string \<times> nat)"
  outcome :: "int \<rightharpoonup> (py_error + json)"

definition init_sys :: sys where
  "init_sys = \<lparr>glob = init_globals, sent = [], ws_open = True,
                listening = True, waiting = Map.empty, outcome = Map.empty\<rparr>"

text \<open>\<^verbatim>\<open>{"id": message_id, "method": method, "params": params}\<close>\<close>

definition command :: "int \<Rightarrow> string \<Rightarrow> json \<Rightarrow> json" where
  "command message_id method params =
     JObj [(''id'', JInt message_id), (''method'', JStr method), (''params'', params)]"

text \<open>\<^verbatim>\<open>create_tab_session\<close>, the command of \<^verbatim>\<open>send_page_command\<close>.\<close>

definition page_command :: "json \<Rightarrow> int \<Rightarrow> string \<Rightarrow> json \<Rightarrow> json" where
  "page_command session_id message_id method params =
     JObj [(''sessionId'', session_id), (''id'', JInt message_id),
           (''method'', JStr method), (''params'', params)]"

text \<open>
  What a call does with the response it popped. \<^verbatim>\<open>server.py\<close> lines 40 to 42:
  an \<^verbatim>\<open>error\<close> key raises \<^verbatim>\<open>RuntimeError\<close> with the remote message.
  \<^verbatim>\<open>simple_debug.py\<close> line 43 returns \<^verbatim>\<open>response.get("result", {})\<close> at once.
\<close>

definition resolve_rich :: "json \<Rightarrow> py_error + json" where
  "resolve_rich response =
     (case py_in ''error'' response of
        Inl e \<Rightarrow> Inl e
      | Inr True \<Rightarrow>
          (case py_getitem response ''error'' of
             Inl e \<Rightarrow> Inl e
           | Inr err \<Rightarrow>
               (case py_getitem err ''message'' of
                  Inl e \<Rightarrow> Inl e
                | Inr m \<Rightarrow> Inl (RuntimeError (Lit ''CDP Error: '' # fmt m))))
      | Inr False \<Rightarrow> py_get response ''result'' (JObj []))"

definition resolve_simple :: "json \<Rightarrow> py_error + json" where
  "resolve_simple response = py_get response ''result'' (JObj [])"

definition resolve :: "variant \<Rightarrow> json \<Rightarrow> py_error + json" where
  "resolve v = (case v of Rich \<Rightarrow> resolve_rich | Simple \<Rightarrow> resolve_simple)"

text \<open>
  \<^verbatim>\<open>send_cdp_command\<close> up to its first suspension: the counter is incremented, the
  command is written. When the websocket is closed the write raises and the call
  ends there.
\<close>

definition call :: "sys \<Rightarrow> string \<Rightarrow> json \<Rightarrow> sys" where
  "call s method params =
     (let message_id = cdp_message_id (glob s) + 1;
          g = (glob s)\<lparr>cdp_message_id := message_id\<rparr>
      in if ws_open s
         then s\<lparr>glob := g, sent := sent s @ [command message_id method params],
                waiting := (waiting s)(message_id \<mapsto> (method, 0))\<rparr>
         else s\<lparr>glob := g, outcome := (outcome s)(message_id \<mapsto> Inl ConnectionClosed)\<rparr>)"

text \<open>
  One check of the wait loop by the call that allocated \<open>message_id\<close>. A response
  stored under the identifier is popped and resolves the call. Otherwise the richer
  variant sleeps and checks again, without bound (\<^verbatim>\<open>while message_id not in
  _cdp_responses\<close>); the simple variant gives up after its 100th check
  (\<^verbatim>\<open>for _ in range(100)\<close>) with \<^verbatim>\<open>TimeoutError\<close>.
\<close>

definition poll :: "variant \<Rightarrow> sys \<Rightarrow> int \<Rightarrow> sys" where
  "poll v s message_id =
     (case waiting s message_id of
        None \<Rightarrow> s
      | Some (method, n) \<Rightarrow>
          (case cdp_responses (glob s) (JInt message_id) of
             Some response \<Rightarrow>
               s\<lparr>glob := (glob s)\<lparr>cdp_responses := (cdp_responses (glob s))(JInt message_id := None)\<rparr>,
                 waiting := (waiting s)(message_id := None),
                 outcome := (outcome s)(message_id \<mapsto> resolve v response)\<rparr>
           | None \<Rightarrow>
               (if v = Simple \<and> 100 \<le> Suc n
                then s\<lparr>waiting := (waiting s)(message_id := None),
                       outcome := (outcome s)(message_id \<mapsto>
                         Inl (TimeoutError [Lit ''No response for command '', Lit method]))\<rparr>
                else s\<lparr>waiting := (waiting s)(message_id \<mapsto> (method, Suc n))\<rparr>)))"

text \<open>The listener task takes one message from the websocket, while it is alive.\<close>

definition recv :: "variant \<Rightarrow> sys \<Rightarrow> message \<Rightarrow> sys" where
  "recv v s msg = (if listening s then s\<lparr>glob := fst (listener v (glob s) msg)\<rparr> else s)"

text \<open>
  \<^verbatim>\<open>app_lifespan\<close>, the \<^verbatim>\<open>finally\<close> block: the listener task is cancelled and
  awaited, the websocket is closed. Nothing else is written.
\<close>

definition shutdown :: "sys \<Rightarrow> sys" where
  "shutdown s = s\<lparr>listening := False, ws_open := False\<rparr>"

text \<open>
  The coroutines run interleaved, each atomically between two \<^verbatim>\<open>await\<close>s: a run
  of the system is a sequence of these steps in any order.
\<close>

datatype action =
    Call string json
  | Poll int
  | Recv message
  | Shutdown

fun step :: "variant \<Rightarrow> sys \<Rightarrow> action \<Rightarrow> sys" where
  "step v s (Call method params) = call s method params"
| "step v s (Poll message_id) = poll v s message_id"
| "step v s (Recv msg) = recv v s msg"
| "step v s Shutdown = shutdown s"

definition run :: "variant \<Rightarrow> sys \<Rightarrow> action list \<Rightarrow> sys" where
  "run v s acts = foldl (step v) s acts"

text \<open>The dict key under which the listener files a frame, if it files it.\<close>

definition frame_key :: "json \<Rightarrow> json option" where
  "frame_key data =
     (case py_getitem data ''id'' of
        Inl e \<Rightarrow> None
      | Inr i \<Rightarrow> (case hash_key i of Inl e \<Rightarrow> None | Inr k \<Rightarrow> Some k))"

text \<open>The event category under which the richer listener records a frame, if it
  records it: no \<^verbatim>\<open>id\<close>, and a \<^verbatim>\<open>method\<close> that is a string.\<close>

definition event_type_of :: "json \<Rightarrow> string option" where
  "event_type_of data =
     (case py_in ''id'' data of
        Inr False \<Rightarrow>
          (case py_in ''method'' data of
             Inr True \<Rightarrow>
               (case py_getitem data ''method'' of
                  Inr m \<Rightarrow> (case py_split_first m of Inr t \<Rightarrow> Some t | Inl e \<Rightarrow> None)
                | Inl e \<Rightarrow> None)
           | _ \<Rightarrow> None)
      | _ \<Rightarrow> None)"

text \<open>The listener of \<^verbatim>\<open>server.py\<close> over a sequence of messages.\<close>

definition listen_all :: "globals \<Rightarrow> message list \<Rightarrow> globals" where
  "listen_all g msgs = foldl (\<lambda>g msg. fst (cdp_listener g msg)) g msgs"

text \<open>The frames of a sequence that are events of one category, in arrival order.\<close>

definition events_for :: "string \<Rightarrow> message list \<Rightarrow> json list" where
  "events_for c msgs =
     concat (map (\<lambda>msg. case msg of
                           Frame d \<Rightarrow> (if event_type_of d = Some c then [d] else [])
                         | BadText raw \<Rightarrow> []
                         | LoadsError name \<Rightarrow> []) msgs)"

text \<open>Bookkeeping over a run: the steps that start a call, the steps in which a frame
  filed under a given identifier arrives, the number of checks one call makes, and the
  identifiers the calls of a run allocate, in order.\<close>

fun is_call :: "action \<Rightarrow> bool" where
  "is_call (Call method params) = True"
| "is_call a = False"

fun delivers :: "int \<Rightarrow> action \<Rightarrow> bool" where
  "delivers m (Recv (Frame d)) = (frame_key d = Some (JInt m))"
| "delivers m a = False"

definition polls :: "int \<Rightarrow> action list \<Rightarrow> nat" where
  "polls m acts = length (filter (\<lambda>a. a = Poll m) acts)"

fun allocated :: "variant \<Rightarrow> sys \<Rightarrow> action list \<Rightarrow> int list" where
  "allocated v s [] = []"
| "allocated v s (a # acts) =
     (if is_call a then [cdp_message_id (glob (step v s a))] else []) @
     allocated v (step v s a) acts"

text \<open>
  The resolution policy as the specification words it, as a relation between a
  filed frame and the outcome of its call: a frame without an error object gives its
  result payload, or the empty result when it has none; in the richer variant a
  frame with an error object fails the call, with \<^verbatim>\<open>RuntimeError\<close> carrying the
  remote message when the error object has one. What the simple variant makes of a
  frame with an error object is left open here.
\<close>

definition frame_answer :: "variant \<Rightarrow> json \<Rightarrow> py_error + json \<Rightarrow> bool" where
  "frame_answer v d r =
     (case d of
        JObj kvs \<Rightarrow>
          (case map_of kvs ''error'' of
             None \<Rightarrow> r = Inr (case map_of kvs ''result'' of None \<Rightarrow> JObj [] | Some x \<Rightarrow> x)
           | Some err \<Rightarrow>
               v = Simple \<or>
               (case err of
                  JObj es \<Rightarrow>
                    (case map_of es ''message'' of
                       Some msg \<Rightarrow> r = Inl (RuntimeError (Lit ''CDP Error: '' # fmt msg))
                     | None \<Rightarrow> isl r)
                | _ \<Rightarrow> isl r))
      | _ \<Rightarrow> False)"

text \<open>A stretch of a run in which the call that allocated \<open>m\<close> makes no check and no
  frame filed under \<open>m\<close> arrives.\<close>

definition untouched :: "int \<Rightarrow> action list \<Rightarrow> bool" where
  "untouched m acts = (filter (\<lambda>a. a = Poll m \<or> delivers m a) acts = [])"

text \<open>Frames and a schedule for the examples: two calls answered in reverse order,
  and an error reply to the first.\<close>

abbreviation frame_A :: json where
  "frame_A \<equiv> JObj [(''id'', JInt 1), (''result'', JObj [(''who'', JStr ''A'')])]"

abbreviation frame_B :: json where
  "frame_B \<equiv> JObj [(''id'', JInt 2), (''result'', JObj [(''who'', JStr ''B'')])]"

abbreviation frame_E :: json where
  "frame_E \<equiv> JObj [(''id'', JInt 1),
                     (''error'', JObj [(''code'', JInt (- 32000)), (''message'', JStr ''no'')])]"

abbreviation out_of_order :: "action list" where
  "out_of_order \<equiv>
     [Call ''A'' (JObj []), Call ''B'' (JObj []),
      Recv (Frame frame_B), Recv (Frame frame_A), Poll 1, Poll 2]"

section \<open>The tools, one caller at a time\<close>

text \<open>
  The result of awaiting a coroutine: a value, an exception, or no return at all
  (the coroutine stays suspended for ever).
\<close>

datatype 'a res = Ret 'a | Exc py_error | Hang

definition ebind :: "py_error + 'a \<Rightarrow> ('a \<Rightarrow> py_error + 'b) \<Rightarrow> py_error + 'b" where
  "ebind x f = (case x of Inl e \<Rightarrow> Inl e | Inr a \<Rightarrow> f a)"

definition rbind :: "'a res \<times> conn \<Rightarrow> ('a \<Rightarrow> conn \<Rightarrow> 'b res \<times> conn) \<Rightarrow> 'b res \<times> conn" where
  "rbind x f =
     (case x of
        (Ret a, c) \<Rightarrow> f a c
      | (Exc e, c) \<Rightarrow> (Exc e, c)
      | (Hang, c) \<Rightarrow> (Hang, c))"

definition lift :: "py_error + 'a \<Rightarrow> conn \<Rightarrow> 'a res \<times> conn" where
  "lift x c = (case x of Inl e \<Rightarrow> (Exc e, c) | Inr a \<Rightarrow> (Ret a, c))"

text \<open>
  The remote endpoint, for a caller that runs alone: for each command written, the
  frame that the listener receives before the caller's next check, if there is one.
  The wait loop then finds the response at its first check or never.
\<close>

type_synonym remote = "json \<Rightarrow> json option"

definition await_response ::
  "variant \<Rightarrow> remote \<Rightarrow> conn \<Rightarrow> json \<Rightarrow> int \<Rightarrow> string \<Rightarrow> json res \<times> conn" where
  "await_response v remote c cmd message_id method =
     (let g = (case remote cmd of
                 None \<Rightarrow> glob c
               | Some frame \<Rightarrow> fst (listener v (glob c) (Frame frame)))
      in case cdp_responses g (JInt message_id) of
           None \<Rightarrow>
             ((case v of
                 Rich \<Rightarrow> Hang
               | Simple \<Rightarrow> Exc (TimeoutError [Lit ''No response for command '', Lit method])),
              c\<lparr>glob := g\<rparr>)
         | Some response \<Rightarrow>
             ((case resolve v response of Inl e \<Rightarrow> Exc e | Inr r \<Rightarrow> Ret r),
              c\<lparr>glob := g\<lparr>cdp_responses := (cdp_responses g)(JInt message_id := None)\<rparr>\<rparr>))"

definition send_cdp_command ::
  "variant \<Rightarrow> remote \<Rightarrow> string \<Rightarrow> json \<Rightarrow> conn \<Rightarrow> json res \<times> conn" where
  "send_cdp_command v remote method params c =
     (let message_id = cdp_message_id (glob c) + 1;
          c1 = c\<lparr>glob := (glob c)\<lparr>cdp_message_id := message_id\<rparr>\<rparr>;
          cmd = command message_id method params
      in if ws_open c
         then await_response v remote (c1\<lparr>sent := sent c @ [cmd]\<rparr>) cmd message_id method
         else (Exc ConnectionClosed, c1))"

text \<open>\<^verbatim>\<open>create_tab_session\<close>: the closure \<^verbatim>\<open>send_page_command\<close> over \<open>session_id\<close>.\<close>

definition send_page_command ::
  "remote \<Rightarrow> json \<Rightarrow> string \<Rightarrow> json \<Rightarrow> conn \<Rightarrow> json res \<times> conn" where
  "send_page_command remote session_id method params c =
     (let message_id = cdp_message_id (glob c) + 1;
          c1 = c\<lparr>glob := (glob c)\<lparr>cdp_message_id := message_id\<rparr>\<rparr>;
          cmd = page_command session_id message_id method params
      in if ws_open c
         then await_response Rich remote (c1\<lparr>sent := sent c @ [cmd]\<rparr>) cmd message_id method
         else (Exc ConnectionClosed, c1))"

definition create_tab_session :: "remote \<Rightarrow> string \<Rightarrow> conn \<Rightarrow> json res \<times> conn" where
  "create_tab_session remote target_id c =
     rbind (send_cdp_command Rich remote ''Target.attachToTarget''
              (JObj [(''targetId'', JStr target_id), (''flatten'', JBool True)]) c)
       (\<lambda>session_info. lift (py_getitem session_info ''sessionId''))"

text \<open>What a tool hands back: \<^verbatim>\<open>json.dumps(payload)\<close>, or
  \<^verbatim>\<open>json.dumps({"error": message})\<close> with a message built by an f-string.\<close>

datatype tool_output = Payload json | ErrorReply fstring

text \<open>Iteration over a JSON value: the elements of a list, the keys of a dict, the
  characters of a string; \<^verbatim>\<open>TypeError\<close> on anything else.\<close>

fun py_iter :: "json \<Rightarrow> py_error + json list" where
  "py_iter (JArr xs) = Inr xs"
| "py_iter (JObj kvs) = Inr (map (\<lambda>kv. JStr (fst kv)) kvs)"
| "py_iter (JStr s) = Inr (map (\<lambda>ch. JStr [ch]) s)"
| "py_iter v = Inl TypeError"

text \<open>The dict display inside the comprehension of \<^verbatim>\<open>list_tabs\<close>: \<^verbatim>\<open>server.py\<close>
  lines 131 to 136 (with \<^verbatim>\<open>type\<close>), \<^verbatim>\<open>simple_debug.py\<close> line 88 (without).\<close>

definition tab_entry :: "variant \<Rightarrow> json \<Rightarrow> py_error + json" where
  "tab_entry v t =
     ebind (py_getitem t ''targetId'') (\<lambda>target_id.
     ebind (py_getitem t ''title'') (\<lambda>title.
     ebind (py_getitem t ''url'') (\<lambda>url.
       case v of
         Simple \<Rightarrow> Inr (JObj [(''id'', target_id), (''title'', title), (''url'', url)])
       | Rich \<Rightarrow>
           ebind (py_getitem t ''type'') (\<lambda>ty.
             Inr (JObj [(''id'', target_id), (''title'', title), (''url'', url), (''type'', ty)])))))"

fun tabs_of :: "variant \<Rightarrow> json list \<Rightarrow> py_error + json list" where
  "tabs_of v [] = Inr []"
| "tabs_of v (t # ts) =
     ebind (py_getitem t ''type'') (\<lambda>ty.
       if ty = JStr ''page''
       then ebind (tab_entry v t) (\<lambda>entry. ebind (tabs_of v ts) (\<lambda>rest. Inr (entry # rest)))
       else tabs_of v ts)"

definition page_tabs :: "variant \<Rightarrow> json \<Rightarrow> py_error + json" where
  "page_tabs v targets_result =
     ebind (py_get targets_result ''targetInfos'' (JArr [])) (\<lambda>infos.
     ebind (py_iter infos) (\<lambda>ts.
     ebind (tabs_of v ts) (\<lambda>tabs. Inr (JObj [(''tabs'', JArr tabs)]))))"

text \<open>\<^verbatim>\<open>server.py\<close>, \<^verbatim>\<open>list_tabs\<close>. \<open>has_ws\<close>: the lifespan context holds a websocket.\<close>

definition list_tabs_rich :: "remote \<Rightarrow> bool \<Rightarrow> conn \<Rightarrow> tool_output res \<times> conn" where
  "list_tabs_rich remote has_ws c =
     (if \<not> has_ws then (Ret (ErrorReply [Lit ''Not connected to Chrome.'']), c)
      else
        (case rbind (send_cdp_command Rich remote ''Target.getTargets'' (JObj []) c)
                (\<lambda>targets_result. lift (page_tabs Rich targets_result)) of
           (Ret tabs, c') \<Rightarrow> (Ret (Payload tabs), c')
         | (Hang, c') \<Rightarrow> (Hang, c')
         | (Exc e, c') \<Rightarrow>
             (case e of
                RuntimeError m \<Rightarrow>
                  (Ret (ErrorReply (Lit ''Error communicating with Chrome: '' # exc_str e)), c')
              | ConnectionClosed \<Rightarrow>
                  (Ret (ErrorReply (Lit ''Error communicating with Chrome: '' # exc_str e)), c')
              | _ \<Rightarrow> (Ret (ErrorReply [Lit ''An unexpected error occurred.'']), c'))))"

text \<open>\<^verbatim>\<open>simple_debug.py\<close>, \<^verbatim>\<open>list_tabs\<close>: a connection of its own, opened first and
  closed after the command; \<open>has_ws\<close>: \<^verbatim>\<open>connect_to_chrome\<close> returned a websocket.\<close>

definition list_tabs_simple :: "remote \<Rightarrow> bool \<Rightarrow> conn \<Rightarrow> tool_output res \<times> conn" where
  "list_tabs_simple remote has_ws c =
     (if \<not> has_ws then (Ret (ErrorReply [Lit ''Could not connect to Chrome'']), c)
      else
        (case rbind (send_cdp_command Simple remote ''Target.getTargets'' (JObj [])
                       (c\<lparr>ws_open := True\<rparr>))
                (\<lambda>targets. lift (page_tabs Simple targets)) of
           (Ret tabs, c') \<Rightarrow> (Ret (Payload tabs), c'\<lparr>ws_open := False\<rparr>)
         | (Hang, c') \<Rightarrow> (Hang, c')
         | (Exc e, c') \<Rightarrow> (Ret (ErrorReply (exc_str e)), c')))"

definition list_tabs :: "variant \<Rightarrow> remote \<Rightarrow> bool \<Rightarrow> conn \<Rightarrow> tool_output res \<times> conn" where
  "list_tabs v = (case v of Rich \<Rightarrow> list_tabs_rich | Simple \<Rightarrow> list_tabs_simple)"

text \<open>\<^verbatim>\<open>server.py\<close>, \<^verbatim>\<open>get_tab_content\<close>: the statements of the \<^verbatim>\<open>try\<close> block after
  the attach and before the detach (lines 196 to 202).\<close>

definition tab_content_body :: "remote \<Rightarrow> json \<Rightarrow> conn \<Rightarrow> json res \<times> conn" where
  "tab_content_body remote session_id c =
     rbind (send_page_command remote session_id ''DOM.getDocument'' (JObj [(''depth'', JInt 1)]) c)
       (\<lambda>doc. \<lambda>c1.
          rbind (lift (ebind (py_getitem doc ''root'') (\<lambda>root. py_getitem root ''nodeId'')) c1)
            (\<lambda>root_node_id.
               send_page_command remote session_id ''DOM.getOuterHTML''
                 (JObj [(''nodeId'', root_node_id)])))"

text \<open>The whole \<^verbatim>\<open>try\<close> block: attach, body, detach (line 205), result (line 207).\<close>

definition tab_content_try :: "remote \<Rightarrow> string \<Rightarrow> conn \<Rightarrow> json res \<times> conn" where
  "tab_content_try remote target_id c =
     rbind (create_tab_session remote target_id c) (\<lambda>session_id. \<lambda>c1.
     rbind (tab_content_body remote session_id c1) (\<lambda>html_result. \<lambda>c2.
     rbind (send_cdp_command Rich remote ''Target.detachFromTarget''
              (JObj [(''sessionId'', session_id)]) c2) (\<lambda>detached. \<lambda>c3.
     rbind (lift (py_get html_result ''outerHTML'' (JStr '''')) c3) (\<lambda>outer.
       Pair (Ret (JObj [(''targetId'', JStr target_id), (''outerHTML'', outer)]))))))"

definition get_tab_content :: "remote \<Rightarrow> bool \<Rightarrow> string \<Rightarrow> conn \<Rightarrow> tool_output res \<times> conn" where
  "get_tab_content remote has_ws target_id c =
     (if \<not> has_ws then (Ret (ErrorReply [Lit ''Not connected to Chrome.'']), c)
      else
        (case tab_content_try remote target_id c of
           (Ret payload, c') \<Rightarrow> (Ret (Payload payload), c')
         | (Hang, c') \<Rightarrow> (Hang, c')
         | (Exc e, c') \<Rightarrow>
             (case e of
                RuntimeError m \<Rightarrow>
                  (Ret (ErrorReply ([Lit ''Error communicating with Chrome for tab '',
                                     Lit target_id, Lit '': ''] @ exc_str e)), c')
              | ConnectionClosed \<Rightarrow>
                  (Ret (ErrorReply ([Lit ''Error communicating with Chrome for tab '',
                                     Lit target_id, Lit '': ''] @ exc_str e)), c')
              | _ \<Rightarrow>
                  (Ret (ErrorReply [Lit ''An unexpected error occurred processing tab '',
                                    Lit target_id, Lit ''.'']), c'))))"

definition init_conn :: conn where
  "init_conn = \<lparr>glob = init_globals, sent = [], ws_open = True\<rparr>"

text \<open>A remote that answers the command with identifier \<open>i\<close> by the \<open>i\<close>-th entry of
  a script.\<close>

definition scripted :: "json option list \<Rightarrow> remote" where
  "scripted frames cmd =
     (case py_getitem cmd ''id'' of
        Inr (JInt i) \<Rightarrow> (if 0 < i \<and> nat i \<le> length frames then frames ! (nat i - 1) else None)
      | _ \<Rightarrow> None)"

text \<open>The response frame of the scenario of the specification, section 8.\<close>

abbreviation targets_frame :: json where
  "targets_frame \<equiv>
     JObj [(''id'', JInt 1),
           (''result'', JObj [(''targetInfos'',
              JArr [JObj [(''targetId'', JStr ''T1''), (''type'', JStr ''page''),
                          (''title'', JStr ''A''), (''url'', JStr ''http://x'')]])])]"

section \<open>Queries over the captured events\<close>

text \<open>\<^verbatim>\<open>event.get("params", {}).get(k, d)\<close>\<close>

definition param_field :: "json \<Rightarrow> string \<Rightarrow> json \<Rightarrow> py_error + json" where
  "param_field event k d = ebind (py_get event ''params'' (JObj [])) (\<lambda>params. py_get params k d)"

text \<open>\<^verbatim>\<open>event.get("params", {}).get("message", {}).get(k, d)\<close>\<close>

definition message_field :: "json \<Rightarrow> string \<Rightarrow> json \<Rightarrow> py_error + json" where
  "message_field event k d =
     ebind (param_field event ''message'' (JObj [])) (\<lambda>message. py_get message k d)"

text \<open>\<^verbatim>\<open>get_console_logs\<close>, the dict display of lines 367 to 374.\<close>

definition console_entry :: "json \<Rightarrow> py_error + json" where
  "console_entry event =
     ebind (param_field event ''timestamp'' (JInt 0)) (\<lambda>timestamp.
     ebind (message_field event ''level'' (JStr ''info'')) (\<lambda>lvl.
     ebind (message_field event ''text'' (JStr '''')) (\<lambda>txt.
     ebind (message_field event ''url'' (JStr '''')) (\<lambda>url.
     ebind (message_field event ''line'' (JInt 0)) (\<lambda>line.
     ebind (message_field event ''source'' (JStr '''')) (\<lambda>source.
       Inr (JObj [(''timestamp'', timestamp), (''level'', lvl), (''text'', txt),
                  (''url'', url), (''line'', line), (''source'', source)])))))))"

text \<open>The comprehension of lines 366 to 377: the filter is evaluated before the
  entry, event by event.\<close>

fun console_logs :: "json list \<Rightarrow> py_error + json list" where
  "console_logs [] = Inr []"
| "console_logs (event # events) =
     ebind (py_get event ''method'' JNull) (\<lambda>m.
       if m = JStr ''Console.messageAdded''
       then ebind (console_entry event) (\<lambda>entry.
            ebind (console_logs events) (\<lambda>rest. Inr (entry # rest)))
       else console_logs events)"

text \<open>
  The two query resources take the module state and hand it back: they are given
  here as state transformers so that what they leave untouched is a statement about
  them. They have no \<^verbatim>\<open>try\<close>: an exception leaves the resource.
\<close>

definition get_console_logs :: "globals \<Rightarrow> (py_error + json) \<times> globals" where
  "get_console_logs g =
     (case cdp_events g ''Console'' of
        None \<Rightarrow> (Inr (JObj [(''logs'', JArr [])]), g)
      | Some events \<Rightarrow>
          (ebind (console_logs events) (\<lambda>logs. Inr (JObj [(''logs'', JArr logs)])), g))"

text \<open>\<^verbatim>\<open>params.get("request", {}).get(k, d)\<close> and
  \<^verbatim>\<open>params.get("response", {}).get(k, d)\<close>\<close>

definition sub_field :: "json \<Rightarrow> string \<Rightarrow> string \<Rightarrow> json \<Rightarrow> py_error + json" where
  "sub_field params sub k d = ebind (py_get params sub (JObj [])) (\<lambda>x. py_get x k d)"

text \<open>The dict stored for a request, lines 464 to 472.\<close>

definition request_record :: "json \<Rightarrow> json \<Rightarrow> py_error + (string \<times> json) list" where
  "request_record params request_id =
     ebind (sub_field params ''request'' ''url'' (JStr '''')) (\<lambda>url.
     ebind (sub_field params ''request'' ''method'' (JStr '''')) (\<lambda>meth.
     ebind (sub_field params ''request'' ''headers'' (JObj [])) (\<lambda>headers.
     ebind (py_get params ''timestamp'' (JInt 0)) (\<lambda>timestamp.
     ebind (py_get params ''type'' (JStr '''')) (\<lambda>ty.
       Inr [(''requestId'', request_id), (''url'', url), (''method'', meth),
            (''headers'', headers), (''timestamp'', timestamp),
            (''status'', JStr ''pending''), (''type'', ty)])))))"

text \<open>The dict merged into it by a response, lines 479 to 487.\<close>

definition response_fields :: "json \<Rightarrow> py_error + (string \<times> json) list" where
  "response_fields params =
     ebind (sub_field params ''response'' ''status'' (JInt 0)) (\<lambda>status_code.
     ebind (sub_field params ''response'' ''statusText'' (JStr '''')) (\<lambda>status_text.
     ebind (sub_field params ''response'' ''mimeType'' (JStr '''')) (\<lambda>mime_type.
     ebind (sub_field params ''response'' ''headers'' (JObj [])) (\<lambda>headers.
       Inr [(''status'', JStr ''received''), (''statusCode'', status_code),
            (''statusText'', status_text), (''mimeType'', mime_type),
            (''responseHeaders'', headers)]))))"

text \<open>
  \<^verbatim>\<open>request_map\<close>: a dict from request identifiers (as dict keys) to the dicts
  above, in insertion order. One iteration of the loop of lines 459 to 488.
\<close>

type_synonym request_map = "(json \<times> (string \<times> json) list) list"

definition network_event :: "request_map \<Rightarrow> json \<Rightarrow> py_error + request_map" where
  "network_event request_map event =
     ebind (py_get event ''method'' JNull) (\<lambda>m.
       if m = JStr ''Network.requestWillBeSent'' then
         ebind (py_get event ''params'' (JObj [])) (\<lambda>params.
         ebind (py_get params ''requestId'' JNull) (\<lambda>request_id.
           if truthy request_id
           then ebind (request_record params request_id) (\<lambda>entry.
                ebind (hash_key request_id) (\<lambda>k.
                  Inr (AList.update k entry request_map)))
           else Inr request_map))
       else if m = JStr ''Network.responseReceived'' then
         ebind (py_get event ''params'' (JObj [])) (\<lambda>params.
         ebind (py_get params ''requestId'' JNull) (\<lambda>request_id.
           if truthy request_id
           then ebind (hash_key request_id) (\<lambda>k.
                  case map_of request_map k of
                    None \<Rightarrow> Inr request_map
                  | Some entry \<Rightarrow>
                      ebind (response_fields params) (\<lambda>fields.
                        Inr (AList.update k (dict_update entry fields) request_map)))
           else Inr request_map))
       else Inr request_map)"

fun network_fold :: "request_map \<Rightarrow> json list \<Rightarrow> py_error + request_map" where
  "network_fold request_map [] = Inr request_map"
| "network_fold request_map (event # events) =
     ebind (network_event request_map event) (\<lambda>request_map'. network_fold request_map' events)"

definition get_network_requests :: "globals \<Rightarrow> (py_error + json) \<times> globals" where
  "get_network_requests g =
     (case cdp_events g ''Network'' of
        None \<Rightarrow> (Inr (JObj [(''requests'', JArr [])]), g)
      | Some events \<Rightarrow>
          (ebind (network_fold [] events) (\<lambda>request_map.
             Inr (JObj [(''requests'', JArr (map (\<lambda>kv. JObj (snd kv)) request_map))])), g))"

text \<open>Whether a list of commands written to the websocket holds a
  \<^verbatim>\<open>Target.detachFromTarget\<close>.\<close>

definition detach_sent :: "json list \<Rightarrow> bool" where
  "detach_sent cmds =
     list_ex (\<lambda>cmd. py_getitem cmd ''method'' = Inr (JStr ''Target.detachFromTarget'')) cmds"

text \<open>A remote that answers attach, the two DOM commands and detach with success.\<close>

abbreviation content_script :: remote where
  "content_script \<equiv>
     scripted [Some (JObj [(''id'', JInt 1), (''result'', JObj [(''sessionId'', JStr ''S1'')])]),
               Some (JObj [(''id'', JInt 2),
                           (''result'', JObj [(''root'', JObj [(''nodeId'', JInt 7)])])]),
               Some (JObj [(''id'', JInt 3), (''result'', JObj [(''outerHTML'', JStr ''page'')])]),
               Some (JObj [(''id'', JInt 4), (''result'', JObj [])])]"

section \<open>The network-request merge, by request identifier\<close>

text \<open>Shape of the events the merge reads: the method, and the dict key of the
  request identifier when the event has one that is true in an \<^verbatim>\<open>if\<close>.\<close>

definition request_sent :: "json \<Rightarrow> bool" where
  "request_sent event = (py_get event ''method'' JNull = Inr (JStr ''Network.requestWillBeSent''))"

definition response_received :: "json \<Rightarrow> bool" where
  "response_received event =
     (py_get event ''method'' JNull = Inr (JStr ''Network.responseReceived''))"

definition network_key :: "json \<Rightarrow> json option" where
  "network_key event =
     (case param_field event ''requestId'' JNull of
        Inl e \<Rightarrow> None
      | Inr request_id \<Rightarrow>
          (if truthy request_id
           then (case hash_key request_id of Inl e \<Rightarrow> None | Inr k \<Rightarrow> Some k)
           else None))"

text \<open>
  The merge as the specification words it, for one request identifier: a
  request-sent event makes its record \<open>pending\<close>, a later response-received event
  with the same identifier makes it \<open>received\<close>, and a response with no recorded
  request leaves no record.
\<close>

definition status_step :: "json \<Rightarrow> string option \<Rightarrow> json \<Rightarrow> string option" where
  "status_step k st event =
     (if request_sent event \<and> network_key event = Some k then Some ''pending''
      else if response_received event \<and> network_key event = Some k \<and> st \<noteq> None
           then Some ''received''
      else st)"

definition status_for :: "json \<Rightarrow> json list \<Rightarrow> string option" where
  "status_for k events = foldl (status_step k) None events"

text \<open>
  Events as the remote protocol sends them: a dict whose \<^verbatim>\<open>params\<close>, when present,
  is a dict; in it a \<^verbatim>\<open>requestId\<close>, when present, is hashable, and \<^verbatim>\<open>request\<close> and
  \<^verbatim>\<open>response\<close>, when present, are dicts.
\<close>

fun is_dict :: "json \<Rightarrow> bool" where
  "is_dict (JObj kvs) = True"
| "is_dict v = False"

fun hashable :: "json \<Rightarrow> bool" where
  "hashable (JArr xs) = False"
| "hashable (JObj kvs) = False"
| "hashable v = True"

definition params_ok :: "(string \<times> json) list \<Rightarrow> bool" where
  "params_ok ps =
     ((case map_of ps ''requestId'' of None \<Rightarrow> True | Some request_id \<Rightarrow> hashable request_id) \<and>
      (case map_of ps ''request'' of None \<Rightarrow> True | Some x \<Rightarrow> is_dict x) \<and>
      (case map_of ps ''response'' of None \<Rightarrow> True | Some x \<Rightarrow> is_dict x))"

fun network_event_ok :: "json \<Rightarrow> bool" where
  "network_event_ok (JObj kvs) =
     (case map_of kvs ''params'' of
        None \<Rightarrow> True
      | Some (JObj ps) \<Rightarrow> params_ok ps
      | Some v \<Rightarrow> False)"
| "network_event_ok v = False"

text \<open>The \<^verbatim>\<open>status\<close> field of a record.\<close>

definition status_of :: "(string \<times> json) list \<Rightarrow> json option" where
  "status_of entry = map_of entry ''status''"

text \<open>
  The same merge with its contents, for one request identifier: the last
  request-sent event with that identifier, and the last response-received event
  with it after that request, if any. The record is the one built from the request,
  updated with the fields of the response.
\<close>

definition merged_step ::
  "json \<Rightarrow> (json \<times> json option) option \<Rightarrow> json \<Rightarrow> (json \<times> json option) option" where
  "merged_step k st event =
     (if request_sent event \<and> network_key event = Some k then Some (event, None)
      else if response_received event \<and> network_key event = Some k
           then map_option (\<lambda>p. (fst p, Some event)) st
      else st)"

definition merged_for :: "json \<Rightarrow> json list \<Rightarrow> (json \<times> json option) option" where
  "merged_for k events = foldl (merged_step k) None events"

definition record_of :: "json \<Rightarrow> (string \<times> json) list" where
  "record_of event =
     (case ebind (py_get event ''params'' (JObj [])) (\<lambda>params.
           ebind (py_get params ''requestId'' JNull) (request_record params)) of
        Inl e \<Rightarrow> []
      | Inr entry \<Rightarrow> entry)"

definition fields_of :: "json \<Rightarrow> (string \<times> json) list" where
  "fields_of event =
     (case ebind (py_get event ''params'' (JObj [])) response_fields of
        Inl e \<Rightarrow> []
      | Inr fs \<Rightarrow> fs)"

definition merge_record :: "json \<times> json option \<Rightarrow> (string \<times> json) list" where
  "merge_record p =
     (case snd p of
        None \<Rightarrow> record_of (fst p)
      | Some response \<Rightarrow> dict_update (record_of (fst p)) (fields_of response))"

text \<open>
  What a record of the view holds, read off the two events directly: the fields of
  the request-sent event (with the defaults of the wire format), status
  \<open>pending\<close>; after a response-received event, status \<open>received\<close> and the
  status code, status text, MIME type and headers of that response.
\<close>

fun dict_of :: "json \<Rightarrow> (string \<times> json) list" where
  "dict_of (JObj kvs) = kvs"
| "dict_of v = []"

definition field_or :: "(string \<times> json) list \<Rightarrow> string \<Rightarrow> json \<Rightarrow> json" where
  "field_or kvs k d = (case map_of kvs k of None \<Rightarrow> d | Some x \<Rightarrow> x)"

definition params_of :: "json \<Rightarrow> (string \<times> json) list" where
  "params_of event = dict_of (field_or (dict_of event) ''params'' (JObj []))"

definition part_of :: "json \<Rightarrow> string \<Rightarrow> (string \<times> json) list" where
  "part_of event sub = dict_of (field_or (params_of event) sub (JObj []))"

definition expected_record :: "json \<times> json option \<Rightarrow> string \<rightharpoonup> json" where
  "expected_record p =
     [''requestId'' \<mapsto> field_or (params_of (fst p)) ''requestId'' JNull,
      ''url'' \<mapsto> field_or (part_of (fst p) ''request'') ''url'' (JStr ''''),
      ''method'' \<mapsto> field_or (part_of (fst p) ''request'') ''method'' (JStr ''''),
      ''headers'' \<mapsto> field_or (part_of (fst p) ''request'') ''headers'' (JObj []),
      ''timestamp'' \<mapsto> field_or (params_of (fst p)) ''timestamp'' (JInt 0),
      ''type'' \<mapsto> field_or (params_of (fst p)) ''type'' (JStr ''''),
      ''status'' \<mapsto> JStr ''pending''] ++
     (case snd p of
        None \<Rightarrow> Map.empty
      | Some response \<Rightarrow>
          [''status'' \<mapsto> JStr ''received'',
           ''statusCode'' \<mapsto> field_or (part_of response ''response'') ''status'' (JInt 0),
           ''statusText'' \<mapsto> field_or (part_of response ''response'') ''statusText'' (JStr ''''),
           ''mimeType'' \<mapsto> field_or (part_of response ''response'') ''mimeType'' (JStr ''''),
           ''responseHeaders'' \<mapsto> field_or (part_of response ''response'') ''headers'' (JObj [])])"

text \<open>What the fold keeps true of \<^verbatim>\<open>request_map\<close>, against the merge of each
  identifier: distinct keys, and under each key a record with the merged contents.\<close>

definition merge_inv :: "request_map \<Rightarrow> (json \<Rightarrow> (json \<times> json option) option) \<Rightarrow> bool" where
  "merge_inv rm stf =
     (distinct (map fst rm) \<and>
      (\<forall>k. map_option map_of (map_of rm k) = map_option (\<lambda>p. map_of (merge_record p)) (stf k)) \<and>
      (\<forall>k rq rs. stf k = Some (rq, rs) \<longrightarrow>
         network_event_ok rq \<and> network_key rq = Some k \<and>
         (\<forall>r. rs = Some r \<longrightarrow> network_event_ok r)))"

text \<open>Three events for the examples: a request and its response, and a response to
  a request that was never recorded.\<close>

abbreviation request_R1 :: json where
  "request_R1 \<equiv>
     JObj [(''method'', JStr ''Network.requestWillBeSent''),
           (''params'', JObj [(''requestId'', JStr ''R1''),
                              (''request'', JObj [(''url'', JStr ''http://x''),
                                                  (''method'', JStr ''GET'')])])]"

abbreviation response_R1 :: json where
  "response_R1 \<equiv>
     JObj [(''method'', JStr ''Network.responseReceived''),
           (''params'', JObj [(''requestId'', JStr ''R1''),
                              (''response'', JObj [(''status'', JInt 200)])])]"

abbreviation response_R2 :: json where
  "response_R2 \<equiv>
     JObj [(''method'', JStr ''Network.responseReceived''),
           (''params'', JObj [(''requestId'', JStr ''R2''),
                              (''response'', JObj [(''status'', JInt 404)])])]"

text \<open>
  \<^verbatim>\<open>server.py\<close>, \<^verbatim>\<open>inspect_element\<close>: the statements of the \<^verbatim>\<open>try\<close> block after the
  attach, up to the point where the tool detaches (lines 241 to 269). The result is
  \<open>None\<close> when \<^verbatim>\<open>DOM.querySelector\<close> found no node (line 249), otherwise the three
  answers about the node.
\<close>

definition inspect_body ::
  "remote \<Rightarrow> json \<Rightarrow> string \<Rightarrow> conn \<Rightarrow> (json \<times> json \<times> json) option res \<times> conn" where
  "inspect_body remote session_id selector c =
     rbind (send_page_command remote session_id ''DOM.getDocument'' (JObj [(''depth'', JInt 1)]) c)
       (\<lambda>doc. \<lambda>c1.
     rbind (lift (ebind (py_getitem doc ''root'') (\<lambda>root. py_getitem root ''nodeId'')) c1)
       (\<lambda>root_node_id. \<lambda>c2.
     rbind (send_page_command remote session_id ''DOM.querySelector''
              (JObj [(''nodeId'', root_node_id), (''selector'', JStr selector)]) c2)
       (\<lambda>query_result. \<lambda>c3.
     rbind (lift (py_get query_result ''nodeId'' JNull) c3)
       (\<lambda>found. \<lambda>c4.
          if \<not> truthy found then (Ret None, c4)
          else
            rbind (lift (py_getitem query_result ''nodeId'') c4) (\<lambda>node1. \<lambda>c5.
            rbind (send_page_command remote session_id ''DOM.describeNode''
                     (JObj [(''nodeId'', node1), (''depth'', JInt 1), (''pierce'', JBool True)]) c5)
              (\<lambda>node_details. \<lambda>c6.
            rbind (lift (py_getitem query_result ''nodeId'') c6) (\<lambda>node2. \<lambda>c7.
            rbind (send_page_command remote session_id ''CSS.getComputedStyleForNode''
                     (JObj [(''nodeId'', node2)]) c7)
              (\<lambda>styles. \<lambda>c8.
            rbind (lift (py_getitem query_result ''nodeId'') c8) (\<lambda>node3. \<lambda>c9.
            rbind (send_page_command remote session_id ''DOM.getOuterHTML''
                     (JObj [(''nodeId'', node3)]) c9)
              (\<lambda>html_result.
                 Pair (Ret (Some (node_details, styles, html_result)))))))))))))"

text \<open>After the body: the detach and the reply, on either path (lines 250 to 253 and
  272 to 283).\<close>

definition inspect_finish ::
  "remote \<Rightarrow> json \<Rightarrow> string \<Rightarrow> string \<Rightarrow> (json \<times> json \<times> json) option \<Rightarrow> conn \<Rightarrow>
     tool_output res \<times> conn" where
  "inspect_finish remote session_id target_id selector found c =
     rbind (send_cdp_command Rich remote ''Target.detachFromTarget''
              (JObj [(''sessionId'', session_id)]) c)
       (\<lambda>detached. \<lambda>c1.
          case found of
            None \<Rightarrow>
              (Ret (ErrorReply [Lit ''Element not found with selector: '', Lit selector]), c1)
          | Some (node_details, styles, html_result) \<Rightarrow>
              rbind (lift (py_get node_details ''node'' (JObj [])) c1) (\<lambda>node. \<lambda>c2.
              rbind (lift (py_get styles ''computedStyle'' (JArr [])) c2) (\<lambda>computed. \<lambda>c3.
              rbind (lift (py_get html_result ''outerHTML'' (JStr '''')) c3) (\<lambda>outer.
                Pair (Ret (Payload (JObj [(''targetId'', JStr target_id),
                                          (''selector'', JStr selector),
                                          (''nodeDetails'', node),
                                          (''computedStyles'', computed),
                                          (''outerHTML'', outer)])))))))"

definition inspect_try :: "remote \<Rightarrow> string \<Rightarrow> string \<Rightarrow> conn \<Rightarrow> tool_output res \<times> conn" where
  "inspect_try remote target_id selector c =
     rbind (create_tab_session remote target_id c) (\<lambda>session_id. \<lambda>c1.
     rbind (inspect_body remote session_id selector c1) (\<lambda>found.
       inspect_finish remote session_id target_id selector found))"

definition inspect_element ::
  "remote \<Rightarrow> bool \<Rightarrow> string \<Rightarrow> string \<Rightarrow> conn \<Rightarrow> tool_output res \<times> conn" where
  "inspect_element remote has_ws target_id selector c =
     (if \<not> has_ws then (Ret (ErrorReply [Lit ''Not connected to Chrome.'']), c)
      else
        (case inspect_try remote target_id selector c of
           (Ret out, c') \<Rightarrow> (Ret out, c')
         | (Hang, c') \<Rightarrow> (Hang, c')
         | (Exc e, c') \<Rightarrow>
             (case e of
                RuntimeError m \<Rightarrow>
                  (Ret (ErrorReply (Lit ''Error communicating with Chrome: '' # exc_str e)), c')
              | ConnectionClosed \<Rightarrow>
                  (Ret (ErrorReply (Lit ''Error communicating with Chrome: '' # exc_str e)), c')
              | _ \<Rightarrow>
                  (Ret (ErrorReply (Lit ''An unexpected error occurred: '' # exc_str e)), c'))))"

text \<open>
  \<^verbatim>\<open>simple_debug.py\<close>, \<^verbatim>\<open>get_tab_content\<close>: the attach (lines 113 to 117), the body
  (lines 120 to 129; the parameters of \<^verbatim>\<open>DOM.getOuterHTML\<close> are evaluated before it
  is sent), then detach, close and reply (lines 132 to 135).
\<close>

definition simple_attach :: "remote \<Rightarrow> string \<Rightarrow> conn \<Rightarrow> json res \<times> conn" where
  "simple_attach remote target_id c =
     rbind (send_cdp_command Simple remote ''Target.attachToTarget''
              (JObj [(''targetId'', JStr target_id), (''flatten'', JBool True)]) c)
       (\<lambda>session. lift (py_get session ''sessionId'' JNull))"

definition simple_content_body :: "remote \<Rightarrow> json \<Rightarrow> conn \<Rightarrow> json res \<times> conn" where
  "simple_content_body remote session_id c =
     rbind (send_cdp_command Simple remote ''DOM.getDocument''
              (JObj [(''sessionId'', session_id), (''depth'', JInt 1)]) c)
       (\<lambda>doc. \<lambda>c1.
          rbind (lift (ebind (py_get doc ''root'' (JObj [])) (\<lambda>root. py_get root ''nodeId'' JNull)) c1)
            (\<lambda>node_id.
               send_cdp_command Simple remote ''DOM.getOuterHTML''
                 (JObj [(''sessionId'', session_id), (''nodeId'', node_id)])))"

definition simple_content_finish ::
  "remote \<Rightarrow> json \<Rightarrow> string \<Rightarrow> json \<Rightarrow> conn \<Rightarrow> json res \<times> conn" where
  "simple_content_finish remote session_id target_id html c =
     rbind (send_cdp_command Simple remote ''Target.detachFromTarget''
              (JObj [(''sessionId'', session_id)]) c)
       (\<lambda>detached. \<lambda>c1.
          rbind (lift (py_get html ''outerHTML'' (JStr '''')) (c1\<lparr>ws_open := False\<rparr>))
            (\<lambda>outer. Pair (Ret (JObj [(''targetId'', JStr target_id), (''html'', outer)]))))"

definition simple_content_try :: "remote \<Rightarrow> string \<Rightarrow> conn \<Rightarrow> json res \<times> conn" where
  "simple_content_try remote target_id c =
     rbind (simple_attach remote target_id c) (\<lambda>session_id. \<lambda>c1.
     rbind (simple_content_body remote session_id c1) (\<lambda>html.
       simple_content_finish remote session_id target_id html))"

definition get_tab_content_simple ::
  "remote \<Rightarrow> bool \<Rightarrow> string \<Rightarrow> conn \<Rightarrow> tool_output res \<times> conn" where
  "get_tab_content_simple remote has_ws target_id c =
     (if \<not> has_ws then (Ret (ErrorReply [Lit ''Could not connect to Chrome'']), c)
      else
        (case simple_content_try remote target_id (c\<lparr>ws_open := True\<rparr>) of
           (Ret payload, c') \<Rightarrow> (Ret (Payload payload), c')
         | (Hang, c') \<Rightarrow> (Hang, c')
         | (Exc e, c') \<Rightarrow> (Ret (ErrorReply (exc_str e)), c')))"

text \<open>From one state of the connection to a later one: the websocket is open and no
  detach has been written in between.\<close>

definition quiet :: "conn \<Rightarrow> conn \<Rightarrow> bool" where
  "quiet c c' = (ws_open c' \<and> (\<exists>new. sent c' = sent c @ new \<and> \<not> detach_sent new))"

text \<open>A remote that answers every command of \<^verbatim>\<open>inspect_element\<close> with success.\<close>

abbreviation inspect_script :: remote where
  "inspect_script \<equiv>
     scripted [Some (JObj [(''id'', JInt 1), (''result'', JObj [(''sessionId'', JStr ''S1'')])]),
               Some (JObj [(''id'', JInt 2),
                           (''result'', JObj [(''root'', JObj [(''nodeId'', JInt 7)])])]),
               Some (JObj [(''id'', JInt 3), (''result'', JObj [(''nodeId'', JInt 9)])]),
               Some (JObj [(''id'', JInt 4), (''result'', JObj [(''node'', JObj [])])]),
               Some (JObj [(''id'', JInt 5), (''result'', JObj [(''computedStyle'', JArr [])])]),
               Some (JObj [(''id'', JInt 6), (''result'', JObj [(''outerHTML'', JStr ''h'')])]),
               Some (JObj [(''id'', JInt 7), (''result'', JObj [])])]"

section \<open>Routing of inbound frames\<close>

lemma py_in_getitem_None: "py_in k d = Inr False \<Longrightarrow> \<exists>e. py_getitem d k = Inl e"
  by (cases d) (auto split: option.splits)

lemma py_getitem_in: "py_getitem d k = Inr i \<Longrightarrow> py_in k d = Inr True"
  by (cases d) (auto split: option.splits)

lemma frame_key_Some:
  "frame_key d = Some k \<longleftrightarrow> (\<exists>i. py_getitem d ''id'' = Inr i \<and> hash_key i = Inr k)"
  by (simp add: frame_key_def split: sum.splits)

lemma body_key:
  assumes "frame_key d = Some k"
  shows "cdp_listener_body g d = Inr (g\<lparr>cdp_responses := (cdp_responses g)(k \<mapsto> d)\<rparr>, [])"
proof -
  from assms obtain i where i: "py_getitem d ''id'' = Inr i" "hash_key i = Inr k"
    by (auto simp: frame_key_Some)
  from i(1) have "py_in ''id'' d = Inr True" by (rule py_getitem_in)
  with i show ?thesis by (simp add: cdp_listener_body_def)
qed

lemma simple_body_key:
  assumes "frame_key d = Some k"
  shows "listen_body g d = Inr (g\<lparr>cdp_responses := (cdp_responses g)(k \<mapsto> d)\<rparr>)"
proof -
  from assms obtain i where i: "py_getitem d ''id'' = Inr i" "hash_key i = Inr k"
    by (auto simp: frame_key_Some)
  from i(1) have "py_in ''id'' d = Inr True" by (rule py_getitem_in)
  with i show ?thesis by (simp add: listen_body_def)
qed

lemma event_type_of_Some:
  "event_type_of d = Some t \<longleftrightarrow>
     py_in ''id'' d = Inr False \<and> py_in ''method'' d = Inr True \<and>
     (\<exists>m. py_getitem d ''method'' = Inr m \<and> py_split_first m = Inr t)"
  by (simp add: event_type_of_def split: sum.splits bool.splits)

lemma body_event:
  assumes "event_type_of d = Some t"
  shows "\<exists>m. py_getitem d ''method'' = Inr m \<and> cdp_listener_body g d =
           Inr (record_event g t d, [(DEBUG, Lit ''Received CDP Event: '' # fmt m)])"
  using assms by (auto simp: event_type_of_Some cdp_listener_body_def)

lemma body_other:
  assumes "frame_key d = None" "event_type_of d = None"
  shows "(\<exists>e. cdp_listener_body g d = Inl e) \<or> cdp_listener_body g d = Inr (g, [])"
proof (cases "py_in ''id'' d")
  case (Inl e)
  then show ?thesis by (simp add: cdp_listener_body_def)
next
  case (Inr b)
  show ?thesis
  proof (cases b)
    case True
    with Inr assms(1) show ?thesis
      by (simp add: cdp_listener_body_def frame_key_def split: sum.splits)
  next
    case False
    with Inr assms(2) show ?thesis
      by (auto simp: cdp_listener_body_def event_type_of_def split: sum.splits bool.splits)
  qed
qed

lemma simple_body_other:
  assumes "frame_key d = None"
  shows "(\<exists>e. listen_body g d = Inl e) \<or> listen_body g d = Inr g"
proof (cases "py_in ''id'' d")
  case (Inl e)
  then show ?thesis by (simp add: listen_body_def)
next
  case (Inr b)
  with assms show ?thesis
    by (cases b) (simp_all add: listen_body_def frame_key_def split: sum.splits)
qed

lemma event_no_key: "event_type_of d = Some t \<Longrightarrow> frame_key d = None"
  by (auto simp: event_type_of_Some frame_key_def dest: py_in_getitem_None split: sum.splits)

lemma record_event_fields [simp]:
  "cdp_message_id (record_event g t d) = cdp_message_id g"
  "cdp_responses (record_event g t d) = cdp_responses g"
  by (simp_all add: record_event_def Let_def)




lemma record_event_events:
  "cdp_events (record_event g t d) =
     (cdp_events g)(t \<mapsto> last_1000 ((case cdp_events g t of None \<Rightarrow> [] | Some xs \<Rightarrow> xs) @ [d]))"
  by (simp add: record_event_def Let_def last_1000_def)

lemma last_1000_snoc: "last_1000 (last_1000 xs @ [d]) = last_1000 (xs @ [d])"
proof (cases "length xs \<le> 1000")
  case True
  then show ?thesis by (simp add: last_1000_def)
next
  case False
  then have "Suc (length xs - 1000) = length xs - 999" by arith
  with False show ?thesis by (simp add: last_1000_def)
qed

lemma last_1000_length: "length (last_1000 xs) \<le> 1000"
  by (simp add: last_1000_def)

lemma cdp_listener_events:
  "cdp_events (fst (cdp_listener g (Frame d))) =
     (case event_type_of d of None \<Rightarrow> cdp_events g | Some t \<Rightarrow> cdp_events (record_event g t d))"
proof (cases "event_type_of d")
  case (Some t)
  with body_event[OF Some, of g] show ?thesis
    by (auto simp: cdp_listener_def)
next
  case None
  show ?thesis
  proof (cases "frame_key d")
    case (Some k)
    with None body_key[OF Some, of g] show ?thesis by (simp add: cdp_listener_def)
  next
    case None2: None
    with None body_other[OF None2 None, of g] show ?thesis
      by (auto simp: cdp_listener_def)
  qed
qed

lemma events_for_snoc:
  "events_for c (msgs @ [msg]) = events_for c msgs @
     (case msg of
        Frame d \<Rightarrow> (if event_type_of d = Some c then [d] else [])
      | BadText raw \<Rightarrow> []
      | LoadsError name \<Rightarrow> [])"
  by (simp add: events_for_def)

lemma listen_all_snoc: "listen_all g (msgs @ [msg]) = fst (cdp_listener (listen_all g msgs) msg)"
  by (simp add: listen_all_def)

lemma listen_all_events:
  "cdp_events (listen_all init_globals msgs) c =
     (if events_for c msgs = [] then None else Some (last_1000 (events_for c msgs)))"
proof (induction msgs arbitrary: c rule: rev_induct)
  case Nil
  then show ?case by (simp add: listen_all_def events_for_def init_globals_def)
next
  case (snoc msg msgs)
  show ?case
  proof (cases msg)
    case (BadText raw)
    with snoc show ?thesis
      by (simp add: listen_all_snoc events_for_snoc cdp_listener_def)
  next
    case (LoadsError name)
    with snoc show ?thesis
      by (simp add: listen_all_snoc events_for_snoc cdp_listener_def)
  next
    case (Frame d)
    show ?thesis
    proof (cases "event_type_of d")
      case None
      with Frame snoc show ?thesis
        by (simp add: listen_all_snoc events_for_snoc cdp_listener_events)
    next
      case (Some t)
      with Frame snoc[of c] snoc[of t] show ?thesis
        by (auto simp: listen_all_snoc events_for_snoc cdp_listener_events record_event_events
            last_1000_snoc)
    qed
  qed
qed

text \<open>
  Claim C4. After any sequence of messages from the start state, the buffer of a
  category is the last 1000 of all the events of that category received so far, in
  arrival order, so it never holds more than 1000. One step on any state: the new
  event goes to the end, and a buffer that was full loses its oldest entries.
\<close>

theorem event_buffer_cap_fifo:
  "cdp_events (listen_all init_globals msgs) c =
     (let all = events_for c msgs
      in if all = [] then None else Some (drop (length all - 1000) all)) \<and>
   (case cdp_events (listen_all init_globals msgs) c of
      None \<Rightarrow> True | Some buf \<Rightarrow> length buf \<le> 1000) \<and>
   (case cdp_events g c of
      None \<Rightarrow> cdp_events (record_event g c d) c = Some [d]
    | Some buf \<Rightarrow>
        cdp_events (record_event g c d) c =
          Some (if length buf < 1000 then buf @ [d] else drop (length buf - 999) buf @ [d]))"
  by (auto simp: listen_all_events Let_def last_1000_def record_event_def split: option.splits)

section \<open>Correlation of responses with calls\<close>

lemma run_Nil [simp]: "run v s [] = s"
  by (simp add: run_def)

lemma run_Cons [simp]: "run v s (a # acts) = run v (step v s a) acts"
  by (simp add: run_def)

lemma run_snoc: "run v s (acts @ [a]) = step v (run v s acts) a"
  by (simp add: run_def)

lemma listener_responses:
  "cdp_responses (fst (listener v g (Frame d))) =
     (case frame_key d of Some k \<Rightarrow> (cdp_responses g)(k \<mapsto> d) | None \<Rightarrow> cdp_responses g)"
proof (cases "frame_key d")
  case (Some k)
  then show ?thesis
    by (cases v) (simp_all add: listener_def cdp_listener_def listen_for_messages_def
        body_key simple_body_key)
next
  case None
  show ?thesis
  proof (cases v)
    case Simple
    with None simple_body_other[OF None, of g] show ?thesis
      by (auto simp: listener_def listen_for_messages_def)
  next
    case Rich
    show ?thesis
    proof (cases "event_type_of d")
      case (Some t)
      with Rich None body_event[OF Some, of g] show ?thesis
        by (auto simp: listener_def cdp_listener_def)
    next
      case None2: None
      with Rich None body_other[OF None None2, of g] show ?thesis
        by (auto simp: listener_def cdp_listener_def)
    qed
  qed
qed

lemma listener_bad [simp]: "fst (listener v g (BadText raw)) = g"
  by (cases v) (simp_all add: listener_def cdp_listener_def listen_for_messages_def)

lemma listener_loads [simp]: "fst (listener v g (LoadsError name)) = g"
  by (cases v) (simp_all add: listener_def cdp_listener_def listen_for_messages_def)

lemma listener_counter [simp]: "cdp_message_id (fst (listener v g msg)) = cdp_message_id g"
proof (cases msg)
  case (BadText raw)
  then show ?thesis by simp
next
  case (LoadsError name)
  then show ?thesis by simp
next
  case (Frame d)
  show ?thesis
  proof (cases v)
    case Simple
    show ?thesis
    proof (cases "frame_key d")
      case (Some k)
      with Simple Frame show ?thesis
        by (simp add: listener_def listen_for_messages_def simple_body_key)
    next
      case None
      with Simple Frame simple_body_other[OF None, of g] show ?thesis
        by (auto simp: listener_def listen_for_messages_def)
    qed
  next
    case Rich
    show ?thesis
    proof (cases "frame_key d")
      case (Some k)
      with Rich Frame show ?thesis
        by (simp add: listener_def cdp_listener_def body_key)
    next
      case None
      show ?thesis
      proof (cases "event_type_of d")
        case (Some t)
        with Rich Frame body_event[OF Some, of g] show ?thesis
          by (auto simp: listener_def cdp_listener_def)
      next
        case None2: None
        with Rich Frame body_other[OF None None2, of g] show ?thesis
          by (auto simp: listener_def cdp_listener_def)
      qed
    qed
  qed
qed

lemma step_counter:
  "cdp_message_id (glob (step v s a)) = cdp_message_id (glob s) + (if is_call a then 1 else 0)"
  by (cases a)
     (auto simp: call_def poll_def recv_def shutdown_def Let_def split: option.splits)

lemma run_counter:
  "cdp_message_id (glob (run v s acts)) = cdp_message_id (glob s) + int (length (filter is_call acts))"
  by (induction acts arbitrary: s) (simp_all add: step_counter)

lemma allocated_eq:
  "allocated v s acts =
     map (\<lambda>i. cdp_message_id (glob s) + int i) [1 ..< Suc (length (filter is_call acts))]"
proof (induction acts arbitrary: s)
  case Nil
  then show ?case by simp
next
  case (Cons a acts)
  show ?case
  proof (cases "is_call a")
    case True
    with Cons[of "step v s a"] show ?thesis
      by (simp add: step_counter upt_conv_Cons map_Suc_upt[symmetric] del: upt_Suc)
  next
    case False
    with Cons[of "step v s a"] show ?thesis
      by (simp add: step_counter)
  qed
qed

lemma step_responses:
  assumes "cdp_responses (glob (step v s a)) k = Some d"
  shows "cdp_responses (glob s) k = Some d \<or> (a = Recv (Frame d) \<and> frame_key d = Some k)"
proof (cases a)
  case (Call meth ps)
  with assms show ?thesis by (simp add: call_def Let_def split: if_splits)
next
  case (Poll m)
  with assms show ?thesis
    by (auto simp: poll_def split: option.splits if_splits)
next
  case (Recv msg)
  show ?thesis
  proof (cases msg)
    case (BadText raw)
    with Recv assms show ?thesis by (simp add: recv_def split: if_splits)
  next
    case (LoadsError name)
    with Recv assms show ?thesis by (simp add: recv_def split: if_splits)
  next
    case (Frame d')
    with Recv assms show ?thesis
      by (auto simp: recv_def listener_responses split: if_splits option.splits)
  qed
next
  case Shutdown
  with assms show ?thesis by (simp add: shutdown_def)
qed

lemma run_responses:
  "cdp_responses (glob (run v init_sys acts)) k = Some d \<Longrightarrow>
     Recv (Frame d) \<in> set acts \<and> frame_key d = Some k"
proof (induction acts arbitrary: k d rule: rev_induct)
  case Nil
  then show ?case by (simp add: init_sys_def init_globals_def)
next
  case (snoc a acts)
  from snoc.prems have "cdp_responses (glob (step v (run v init_sys acts) a)) k = Some d"
    by (simp add: run_snoc)
  from step_responses[OF this] snoc.IH show ?case by auto
qed

lemma step_ids:
  assumes "waiting (step v s a) m \<noteq> None \<or> outcome (step v s a) m \<noteq> None"
  shows "waiting s m \<noteq> None \<or> outcome s m \<noteq> None \<or>
         (is_call a \<and> m = cdp_message_id (glob s) + 1)"
proof (cases a)
  case (Call meth ps)
  with assms show ?thesis by (auto simp: call_def Let_def split: if_splits)
next
  case (Poll m')
  with assms show ?thesis
    by (auto simp: poll_def split: option.splits if_splits)
next
  case (Recv msg)
  with assms show ?thesis by (simp add: recv_def split: if_splits)
next
  case Shutdown
  with assms show ?thesis by (simp add: shutdown_def)
qed

lemma run_ids:
  "waiting (run v init_sys acts) m \<noteq> None \<or> outcome (run v init_sys acts) m \<noteq> None \<Longrightarrow>
     0 < m \<and> m \<le> int (length (filter is_call acts))"
proof (induction acts rule: rev_induct)
  case Nil
  then show ?case by (simp add: init_sys_def)
next
  case (snoc a acts)
  from snoc.prems
  have "waiting (step v (run v init_sys acts) a) m \<noteq> None \<or>
        outcome (step v (run v init_sys acts) a) m \<noteq> None"
    by (simp add: run_snoc)
  from step_ids[OF this] snoc.IH show ?case
    by (auto simp: run_counter init_sys_def init_globals_def)
qed

lemma step_outcome:
  assumes "outcome (step v s a) m = Some r"
  shows "outcome s m = Some r
       \<or> (\<exists>d. cdp_responses (glob s) (JInt m) = Some d \<and> r = resolve v d)
       \<or> r = Inl ConnectionClosed
       \<or> (\<exists>meth. v = Simple \<and> r = Inl (TimeoutError [Lit ''No response for command '', Lit meth]))"
proof (cases a)
  case (Call meth ps)
  with assms show ?thesis by (auto simp: call_def Let_def split: if_splits)
next
  case (Poll m')
  with assms show ?thesis
    by (auto simp: poll_def split: option.splits if_splits)
next
  case (Recv msg)
  with assms show ?thesis by (simp add: recv_def split: if_splits)
next
  case Shutdown
  with assms show ?thesis by (simp add: shutdown_def)
qed

lemma run_outcome:
  "outcome (run v init_sys acts) m = Some r \<Longrightarrow>
     (\<exists>d. Recv (Frame d) \<in> set acts \<and> frame_key d = Some (JInt m) \<and> r = resolve v d)
     \<or> r = Inl ConnectionClosed
     \<or> (\<exists>meth. v = Simple \<and> r = Inl (TimeoutError [Lit ''No response for command '', Lit meth]))"
proof (induction acts rule: rev_induct)
  case Nil
  then show ?case by (simp add: init_sys_def)
next
  case (snoc a acts)
  from snoc.prems have "outcome (step v (run v init_sys acts) a) m = Some r"
    by (simp add: run_snoc)
  from step_outcome[OF this] show ?case
  proof (elim disjE exE conjE)
    assume "outcome (run v init_sys acts) m = Some r"
    from snoc.IH[OF this] show ?thesis by auto
  next
    fix d assume "cdp_responses (glob (run v init_sys acts)) (JInt m) = Some d" "r = resolve v d"
    with run_responses[of v acts "JInt m" d] show ?thesis by auto
  qed auto
qed

lemma polls_Nil [simp]: "polls m [] = 0"
  by (simp add: polls_def)

lemma polls_Cons [simp]: "polls m (a # acts) = (if a = Poll m then 1 else 0) + polls m acts"
  by (simp add: polls_def)

lemma step_listening: "listening (step v s a) \<Longrightarrow> listening s"
  by (cases a) (auto simp: call_def poll_def recv_def shutdown_def Let_def
      split: option.splits if_splits)

lemma step_wait:
  assumes w: "waiting s m = Some (meth, n)"
    and r: "cdp_responses (glob s) (JInt m) = None"
    and c: "m \<le> cdp_message_id (glob s)"
    and d: "\<not> listening s \<or> \<not> delivers m a"
    and b: "v = Simple \<Longrightarrow> a = Poll m \<Longrightarrow> Suc n < 100"
  shows "waiting (step v s a) m = Some (meth, n + (if a = Poll m then 1 else 0)) \<and>
         cdp_responses (glob (step v s a)) (JInt m) = None \<and>
         m \<le> cdp_message_id (glob (step v s a)) \<and>
         outcome (step v s a) m = outcome s m"
proof (cases a)
  case (Call meth ps)
  with w r c show ?thesis by (auto simp: call_def Let_def)
next
  case (Poll m')
  show ?thesis
  proof (cases "m' = m")
    case True
    with Poll w r c b show ?thesis by (cases v) (auto simp: poll_def)
  next
    case False
    with Poll w r c show ?thesis
      by (auto simp: poll_def split: option.splits)
  qed
next
  case (Recv msg)
  show ?thesis
  proof (cases msg)
    case (BadText raw)
    with Recv w r c show ?thesis by (simp add: recv_def)
  next
    case (LoadsError name)
    with Recv w r c show ?thesis by (simp add: recv_def)
  next
    case (Frame d')
    with Recv w r c d show ?thesis
      by (auto simp: recv_def listener_responses split: option.splits)
  qed
next
  case Shutdown
  with w r c show ?thesis by (simp add: shutdown_def)
qed

lemma step_done:
  assumes "waiting s m = None" "m \<le> cdp_message_id (glob s)"
  shows "waiting (step v s a) m = None \<and> m \<le> cdp_message_id (glob (step v s a)) \<and>
         outcome (step v s a) m = outcome s m"
proof (cases a)
  case (Call meth ps)
  with assms show ?thesis by (auto simp: call_def Let_def)
next
  case (Poll m')
  with assms show ?thesis by (auto simp: poll_def split: option.splits)
next
  case (Recv msg)
  with assms show ?thesis by (simp add: recv_def)
next
  case Shutdown
  with assms show ?thesis by (simp add: shutdown_def)
qed

lemma run_done:
  "waiting s m = None \<Longrightarrow> m \<le> cdp_message_id (glob s) \<Longrightarrow>
     waiting (run v s acts) m = None \<and> outcome (run v s acts) m = outcome s m"
proof (induction acts arbitrary: s)
  case Nil
  then show ?case by simp
next
  case (Cons a acts)
  from step_done[OF Cons.prems, of v a] Cons.IH[of "step v s a"] show ?case by simp
qed

lemma run_wait_rich:
  assumes "waiting s m = Some (meth, n)" "cdp_responses (glob s) (JInt m) = None"
    "m \<le> cdp_message_id (glob s)" "\<not> listening s \<or> filter (delivers m) acts = []"
  shows "waiting (run Rich s acts) m = Some (meth, n + polls m acts) \<and>
         outcome (run Rich s acts) m = outcome s m"
  using assms
proof (induction acts arbitrary: s n)
  case Nil
  then show ?case by simp
next
  case (Cons a acts)
  from Cons.prems(4) have d: "\<not> listening s \<or> \<not> delivers m a"
    by (auto split: if_splits)
  from Cons.prems(4) step_listening[of Rich s a]
  have d': "\<not> listening (step Rich s a) \<or> filter (delivers m) acts = []"
    by (auto split: if_splits)
  from step_wait[OF Cons.prems(1-3) d, of Rich]
  have st: "waiting (step Rich s a) m = Some (meth, n + (if a = Poll m then 1 else 0))"
    "cdp_responses (glob (step Rich s a)) (JInt m) = None"
    "m \<le> cdp_message_id (glob (step Rich s a))"
    "outcome (step Rich s a) m = outcome s m"
    by simp_all
  from Cons.IH[OF st(1-3) d'] st(4) show ?case by (simp add: add.assoc)
qed

lemma step_timeout:
  assumes "waiting s m = Some (meth, n)" "cdp_responses (glob s) (JInt m) = None" "100 \<le> Suc n"
  shows "waiting (step Simple s (Poll m)) m = None \<and>
         cdp_message_id (glob (step Simple s (Poll m))) = cdp_message_id (glob s) \<and>
         outcome (step Simple s (Poll m)) m =
           Some (Inl (TimeoutError [Lit ''No response for command '', Lit meth]))"
  using assms by (simp add: poll_def)

lemma run_wait_simple:
  assumes "waiting s m = Some (meth, n)" "cdp_responses (glob s) (JInt m) = None"
    "m \<le> cdp_message_id (glob s)" "\<not> listening s \<or> filter (delivers m) acts = []"
    "n < 100" "outcome s m = None"
  shows "if 100 \<le> n + polls m acts
         then waiting (run Simple s acts) m = None \<and>
              outcome (run Simple s acts) m =
                Some (Inl (TimeoutError [Lit ''No response for command '', Lit meth]))
         else waiting (run Simple s acts) m = Some (meth, n + polls m acts) \<and>
              outcome (run Simple s acts) m = None"
  using assms
proof (induction acts arbitrary: s n)
  case Nil
  then show ?case by simp
next
  case (Cons a acts)
  show ?case
  proof (cases "a = Poll m \<and> 100 \<le> Suc n")
    case True
    from step_timeout[OF Cons.prems(1,2), of ] True
    have st: "waiting (step Simple s a) m = None"
      "cdp_message_id (glob (step Simple s a)) = cdp_message_id (glob s)"
      "outcome (step Simple s a) m =
         Some (Inl (TimeoutError [Lit ''No response for command '', Lit meth]))"
      by simp_all
    from st(2) Cons.prems(3) have "m \<le> cdp_message_id (glob (step Simple s a))" by simp
    from run_done[OF st(1) this, of Simple acts] st(3) True show ?thesis by simp
  next
    case False
    then have b: "Simple = Simple \<Longrightarrow> a = Poll m \<Longrightarrow> Suc n < 100" by auto
    from Cons.prems(4) have d: "\<not> listening s \<or> \<not> delivers m a"
      by (auto split: if_splits)
    from Cons.prems(4) step_listening[of Simple s a]
    have d': "\<not> listening (step Simple s a) \<or> filter (delivers m) acts = []"
      by (auto split: if_splits)
    from step_wait[OF Cons.prems(1-3) d b]
    have st: "waiting (step Simple s a) m = Some (meth, n + (if a = Poll m then 1 else 0))"
      "cdp_responses (glob (step Simple s a)) (JInt m) = None"
      "m \<le> cdp_message_id (glob (step Simple s a))"
      "outcome (step Simple s a) m = None"
      using Cons.prems(6) by simp_all
    from False Cons.prems(5) have lt: "n + (if a = Poll m then 1 else 0) < 100" by auto
    from Cons.IH[OF st(1-3) d' lt st(4)] show ?thesis by (simp add: add.assoc)
  qed
qed

lemma call_open:
  assumes "ws_open s"
  shows "waiting (call s meth params) (cdp_message_id (glob s) + 1) = Some (meth, 0)"
    "cdp_responses (glob (call s meth params)) = cdp_responses (glob s)"
    "cdp_message_id (glob (call s meth params)) = cdp_message_id (glob s) + 1"
    "outcome (call s meth params) = outcome s"
    "sent (call s meth params) = sent s @ [command (cdp_message_id (glob s) + 1) meth params]"
  using assms by (simp_all add: call_def Let_def)

text \<open>
  Claim C8. A call is made on an open websocket and no frame with its identifier
  ever arrives (none is stored beforehand, none is received during the run). In the
  simple variant the call fails with \<^verbatim>\<open>TimeoutError\<close> at its 100th check, and is
  still waiting before that; in the richer variant it is still waiting after any
  number of checks.
\<close>

theorem wait_bound:
  assumes "ws_open s"
    and "cdp_responses (glob s) (JInt (cdp_message_id (glob s) + 1)) = None"
    and "outcome s (cdp_message_id (glob s) + 1) = None"
    and "filter (delivers (cdp_message_id (glob s) + 1)) acts = []"
  shows "(if 100 \<le> polls (cdp_message_id (glob s) + 1) acts
          then outcome (run Simple (call s meth params) acts) (cdp_message_id (glob s) + 1) =
                 Some (Inl (TimeoutError [Lit ''No response for command '', Lit meth]))
          else waiting (run Simple (call s meth params) acts) (cdp_message_id (glob s) + 1) =
                 Some (meth, polls (cdp_message_id (glob s) + 1) acts) \<and>
               outcome (run Simple (call s meth params) acts) (cdp_message_id (glob s) + 1) = None) \<and>
         waiting (run Rich (call s meth params) acts) (cdp_message_id (glob s) + 1) =
           Some (meth, polls (cdp_message_id (glob s) + 1) acts) \<and>
         outcome (run Rich (call s meth params) acts) (cdp_message_id (glob s) + 1) = None"
proof -
  let ?m = "cdp_message_id (glob s) + 1"
  let ?s = "call s meth params"
  note c = call_open[OF assms(1), of meth params]
  have w: "waiting ?s ?m = Some (meth, 0)" by (rule c(1))
  have r: "cdp_responses (glob ?s) (JInt ?m) = None" using assms(2) c(2) by simp
  have le: "?m \<le> cdp_message_id (glob ?s)" using c(3) by simp
  have d: "\<not> listening ?s \<or> filter (delivers ?m) acts = []" using assms(4) by simp
  have out: "outcome ?s ?m = None" using assms(3) c(4) by simp
  from run_wait_simple[OF w r le d _ out] run_wait_rich[OF w r le d] out
  show ?thesis by (simp split: if_splits)
qed

theorem wait_bound_witness:
  "ws_open init_sys \<and>
   cdp_responses (glob init_sys) (JInt (cdp_message_id (glob init_sys) + 1)) = None \<and>
   outcome init_sys (cdp_message_id (glob init_sys) + 1) = None \<and>
   filter (delivers (cdp_message_id (glob init_sys) + 1)) (replicate 100 (Poll 1)) = [] \<and>
   outcome (run Simple (call init_sys ''Target.getTargets'' (JObj [])) (replicate 100 (Poll 1))) 1 =
     Some (Inl (TimeoutError [Lit ''No response for command '', Lit ''Target.getTargets''])) \<and>
   waiting (run Rich (call init_sys ''Target.getTargets'' (JObj [])) (replicate 100 (Poll 1))) 1 =
     Some (''Target.getTargets'', 100) \<and>
   outcome (run Rich (call init_sys ''Target.getTargets'' (JObj [])) (replicate 100 (Poll 1))) 1 = None"
proof -
  have h: "ws_open init_sys"
    "cdp_responses (glob init_sys) (JInt (cdp_message_id (glob init_sys) + 1)) = None"
    "outcome init_sys (cdp_message_id (glob init_sys) + 1) = None"
    "filter (delivers (cdp_message_id (glob init_sys) + 1)) (replicate 100 (Poll 1)) = []"
    by (simp_all add: init_sys_def init_globals_def)
  have m: "cdp_message_id (glob init_sys) + 1 = 1" by (simp add: init_sys_def init_globals_def)
  have p: "polls 1 (replicate 100 (Poll 1)) = 100" by (simp add: polls_def)
  from wait_bound[OF h, of "''Target.getTargets''" "JObj []"] h show ?thesis
    unfolding m p by simp
qed

text \<open>
  Claim C2, as the code has it. The shutdown sequence stops the listener and closes
  the websocket, and writes nothing else: the response map, the waiting calls and
  their outcomes are as before. A call of the richer variant that was waiting with no
  response stored stays waiting through every later step, whatever arrives.
\<close>

theorem shutdown_keeps_pending:
  assumes "waiting s m = Some (meth, n)" "cdp_responses (glob s) (JInt m) = None"
    "m \<le> cdp_message_id (glob s)"
  shows "glob (shutdown s) = glob s \<and> waiting (shutdown s) = waiting s \<and>
         outcome (shutdown s) = outcome s \<and> sent (shutdown s) = sent s \<and>
         \<not> listening (shutdown s) \<and> \<not> ws_open (shutdown s) \<and>
         waiting (run Rich (shutdown s) acts) m = Some (meth, n + polls m acts) \<and>
         outcome (run Rich (shutdown s) acts) m = outcome s m"
proof -
  have f: "glob (shutdown s) = glob s" "waiting (shutdown s) = waiting s"
    "outcome (shutdown s) = outcome s" "sent (shutdown s) = sent s"
    "\<not> listening (shutdown s)" "\<not> ws_open (shutdown s)"
    by (simp_all add: shutdown_def)
  have w: "waiting (shutdown s) m = Some (meth, n)" using assms(1) f(2) by simp
  have r: "cdp_responses (glob (shutdown s)) (JInt m) = None" using assms(2) f(1) by simp
  have le: "m \<le> cdp_message_id (glob (shutdown s))" using assms(3) f(1) by simp
  have d: "\<not> listening (shutdown s) \<or> filter (delivers m) acts = []" using f(5) by simp
  from run_wait_rich[OF w r le d] f show ?thesis by simp
qed

theorem shutdown_keeps_pending_witness:
  "waiting (call init_sys ''Target.getTargets'' (JObj [])) 1 = Some (''Target.getTargets'', 0) \<and>
   cdp_responses (glob (call init_sys ''Target.getTargets'' (JObj []))) (JInt 1) = None \<and>
   1 \<le> cdp_message_id (glob (call init_sys ''Target.getTargets'' (JObj []))) \<and>
   waiting (run Rich (shutdown (call init_sys ''Target.getTargets'' (JObj [])))
              [Recv (Frame (JObj [(''id'', JInt 1), (''result'', JObj [])])), Poll 1]) 1 =
     Some (''Target.getTargets'', 1) \<and>
   outcome (run Rich (shutdown (call init_sys ''Target.getTargets'' (JObj [])))
              [Recv (Frame (JObj [(''id'', JInt 1), (''result'', JObj [])])), Poll 1]) 1 = None"
proof -
  have h: "waiting (call init_sys ''Target.getTargets'' (JObj [])) 1 = Some (''Target.getTargets'', 0)"
    "cdp_responses (glob (call init_sys ''Target.getTargets'' (JObj []))) (JInt 1) = None"
    "1 \<le> cdp_message_id (glob (call init_sys ''Target.getTargets'' (JObj [])))"
    "outcome (call init_sys ''Target.getTargets'' (JObj [])) 1 = None"
    by (simp_all add: call_def init_sys_def init_globals_def Let_def)
  from shutdown_keeps_pending[OF h(1-3),
      of "[Recv (Frame (JObj [(''id'', JInt 1), (''result'', JObj [])])), Poll 1]"] h
  show ?thesis by simp
qed

text \<open>
  Claim C2 as stated fails: one call outstanding, shutdown, three more checks; the
  call is still suspended and has no outcome, so no \<^verbatim>\<open>ConnectionClosed\<close> failure.
\<close>

theorem shutdown_counterexample:
  "waiting (run Rich init_sys
      [Call ''Target.getTargets'' (JObj []), Shutdown, Poll 1, Poll 1, Poll 1]) 1 =
     Some (''Target.getTargets'', 3) \<and>
   outcome (run Rich init_sys
      [Call ''Target.getTargets'' (JObj []), Shutdown, Poll 1, Poll 1, Poll 1]) 1 = None"
  by (simp add: call_def poll_def shutdown_def init_sys_def init_globals_def Let_def)

text \<open>
  Claim C3 at an error frame. The simple variant returns the empty result, where
  the richer variant raises \<^verbatim>\<open>RuntimeError\<close> with the remote message.
\<close>

theorem simple_ignores_error_frame:
  "outcome (run Simple init_sys
      [Call ''Target.attachToTarget'' (JObj [(''targetId'', JStr ''T0''), (''flatten'', JBool True)]),
       Recv (Frame (JObj [(''id'', JInt 1),
                          (''error'', JObj [(''code'', JInt (- 32602)),
                                            (''message'', JStr ''No target with given id found'')])])),
       Poll 1]) 1 = Some (Inr (JObj [])) \<and>
   outcome (run Rich init_sys
      [Call ''Target.attachToTarget'' (JObj [(''targetId'', JStr ''T0''), (''flatten'', JBool True)]),
       Recv (Frame (JObj [(''id'', JInt 1),
                          (''error'', JObj [(''code'', JInt (- 32602)),
                                            (''message'', JStr ''No target with given id found'')])])),
       Poll 1]) 1 =
     Some (Inl (RuntimeError [Lit ''CDP Error: '', Lit ''No target with given id found'']))"
  by (simp add: call_def poll_def recv_def init_sys_def init_globals_def Let_def
      listener_def cdp_listener_def cdp_listener_body_def listen_for_messages_def listen_body_def
      resolve_def resolve_rich_def resolve_simple_def)

subsection \<open>Safety and progress of the correlation\<close>

lemma frame_key_dict: "frame_key d = Some k \<Longrightarrow> \<exists>kvs. d = JObj kvs"
  by (cases d) (simp_all add: frame_key_def)

lemma resolve_answer:
  assumes "frame_key d = Some k"
  shows "frame_answer v d (resolve v d)"
proof -
  from frame_key_dict[OF assms] obtain kvs where d: "d = JObj kvs" by blast
  show ?thesis
  proof (cases "map_of kvs ''error''")
    case None
    with d show ?thesis
      by (cases v) (simp_all add: frame_answer_def resolve_def resolve_rich_def resolve_simple_def)
  next
    case (Some err)
    show ?thesis
    proof (cases v)
      case Simple
      with d Some show ?thesis by (simp add: frame_answer_def)
    next
      case Rich
      show ?thesis
      proof (cases err)
        case (JObj es)
        with d Some Rich show ?thesis
          by (cases "map_of es ''message''")
             (simp_all add: frame_answer_def resolve_def resolve_rich_def)
      qed (use d Some Rich in \<open>simp_all add: frame_answer_def resolve_def resolve_rich_def\<close>)
    qed
  qed
qed

lemma run_append: "run v s (xs @ ys) = run v (run v s xs) ys"
  by (simp add: run_def)

lemma step_filed:
  assumes w: "waiting s m = Some w"
    and r: "cdp_responses (glob s) (JInt m) = Some d"
    and c: "m \<le> cdp_message_id (glob s)"
    and a: "a \<noteq> Poll m" "\<not> delivers m a"
  shows "waiting (step v s a) m = Some w \<and>
         cdp_responses (glob (step v s a)) (JInt m) = Some d \<and>
         m \<le> cdp_message_id (glob (step v s a)) \<and>
         outcome (step v s a) m = outcome s m"
proof (cases a)
  case (Call meth ps)
  with w r c show ?thesis by (auto simp: call_def Let_def)
next
  case (Poll m')
  with a(1) have "m' \<noteq> m" by simp
  with Poll w r c show ?thesis
    by (auto simp: poll_def split: option.splits)
next
  case (Recv msg)
  show ?thesis
  proof (cases msg)
    case (BadText raw)
    with Recv w r c show ?thesis by (simp add: recv_def)
  next
    case (LoadsError name)
    with Recv w r c show ?thesis by (simp add: recv_def)
  next
    case (Frame d')
    with Recv w r c a(2) show ?thesis
      by (auto simp: recv_def listener_responses split: option.splits)
  qed
next
  case Shutdown
  with w r c show ?thesis by (simp add: shutdown_def)
qed

lemma run_filed:
  assumes "waiting s m = Some w" "cdp_responses (glob s) (JInt m) = Some d"
    "m \<le> cdp_message_id (glob s)" "untouched m acts"
  shows "waiting (run v s acts) m = Some w \<and>
         cdp_responses (glob (run v s acts)) (JInt m) = Some d"
  using assms
proof (induction acts arbitrary: s)
  case Nil
  then show ?case by simp
next
  case (Cons a acts)
  from Cons.prems(4) have a: "a \<noteq> Poll m" "\<not> delivers m a" "untouched m acts"
    by (auto simp: untouched_def split: if_splits)
  from step_filed[OF Cons.prems(1-3) a(1,2), of v]
  have st: "waiting (step v s a) m = Some w"
    "cdp_responses (glob (step v s a)) (JInt m) = Some d"
    "m \<le> cdp_message_id (glob (step v s a))"
    by simp_all
  from Cons.IH[OF st a(3)] show ?case by simp
qed

lemma recv_files:
  assumes "listening s" "frame_key d = Some (JInt m)"
  shows "cdp_responses (glob (recv v s (Frame d))) (JInt m) = Some d \<and>
         waiting (recv v s (Frame d)) = waiting s \<and>
         cdp_message_id (glob (recv v s (Frame d))) = cdp_message_id (glob s)"
  using assms by (simp add: recv_def listener_responses)

lemma poll_resolves:
  assumes "waiting s m = Some w" "cdp_responses (glob s) (JInt m) = Some d"
  shows "outcome (poll v s m) m = Some (resolve v d) \<and> waiting (poll v s m) m = None \<and>
         cdp_responses (glob (poll v s m)) (JInt m) = None"
  using assms by (cases w) (simp add: poll_def)

lemma filed_then_checked:
  assumes w: "waiting s m = Some w" and l: "listening s"
    and c: "m \<le> cdp_message_id (glob s)"
    and k: "frame_key d = Some (JInt m)" and u: "untouched m mid"
  shows "outcome (run v s (Recv (Frame d) # mid @ [Poll m])) m = Some (resolve v d)"
proof -
  let ?s1 = "recv v s (Frame d)"
  from recv_files[OF l k, of v] w c
  have 1: "waiting ?s1 m = Some w" "cdp_responses (glob ?s1) (JInt m) = Some d"
    "m \<le> cdp_message_id (glob ?s1)" by simp_all
  from run_filed[OF 1 u, of v]
  have 2: "waiting (run v ?s1 mid) m = Some w"
    "cdp_responses (glob (run v ?s1 mid)) (JInt m) = Some d" by simp_all
  from poll_resolves[OF 2, of v] show ?thesis by (simp add: run_append)
qed

lemma run_outcome_answer:
  assumes "outcome (run v init_sys acts) m = Some r"
  shows "r = Inl ConnectionClosed
       \<or> (\<exists>meth. v = Simple \<and> r = Inl (TimeoutError [Lit ''No response for command '', Lit meth]))
       \<or> (\<exists>d. Recv (Frame d) \<in> set acts \<and> frame_key d = Some (JInt m) \<and> frame_answer v d r)"
  using run_outcome[OF assms] resolve_answer by blast

text \<open>
  Claim C1, as the code has it. In every run from the start state, in either variant
  and whatever the interleaving of calls, checks and arriving frames:
  the identifiers the calls allocate are pairwise distinct;
  a call that has finished, having allocated \<open>m\<close>, either failed without any
  frame (the write raised on a closed websocket, or the simple variant timed out) or
  was resolved from a frame that the listener received and whose \<^verbatim>\<open>id\<close> equals
  \<open>m\<close> (as Python compares dict keys), with the outcome the resolution policy gives
  for that very frame;
  and a call that is waiting when a frame with its identifier arrives is resolved
  from that frame at its next check, whatever else happens in between.
\<close>

theorem correlation:
  "distinct (allocated v init_sys acts) \<and>
   (\<forall>m r. outcome (run v init_sys acts) m = Some r \<longrightarrow>
      m \<in> set (allocated v init_sys acts) \<and>
      (r = Inl ConnectionClosed
       \<or> (\<exists>meth. v = Simple \<and>
             r = Inl (TimeoutError [Lit ''No response for command '', Lit meth]))
       \<or> (\<exists>d. Recv (Frame d) \<in> set acts \<and> frame_key d = Some (JInt m) \<and>
               frame_answer v d r))) \<and>
   (\<forall>m w d mid.
      waiting (run v init_sys acts) m = Some w \<and> listening (run v init_sys acts) \<and>
      frame_key d = Some (JInt m) \<and> untouched m mid \<longrightarrow>
      (\<exists>r. outcome (run v init_sys (acts @ Recv (Frame d) # mid @ [Poll m])) m = Some r \<and>
           frame_answer v d r))"
proof (intro conjI allI impI)
  let ?n = "length (filter is_call acts)"
  have alloc: "allocated v init_sys acts = map int [1 ..< Suc ?n]"
    by (simp add: allocated_eq init_sys_def init_globals_def)
  show "distinct (allocated v init_sys acts)"
    unfolding alloc by (simp add: distinct_map inj_on_def)
  {
    fix m r assume o: "outcome (run v init_sys acts) m = Some r"
    with run_ids[of v acts m] have "0 < m \<and> m \<le> int ?n" by simp
    then show "m \<in> set (allocated v init_sys acts)"
      unfolding alloc by (auto simp: image_iff intro!: bexI[of _ "nat m"])
    from run_outcome_answer[OF o]
    show "r = Inl ConnectionClosed
       \<or> (\<exists>meth. v = Simple \<and>
             r = Inl (TimeoutError [Lit ''No response for command '', Lit meth]))
       \<or> (\<exists>d. Recv (Frame d) \<in> set acts \<and> frame_key d = Some (JInt m) \<and>
               frame_answer v d r)" .
  }
  fix m w d mid
  assume a: "waiting (run v init_sys acts) m = Some w \<and> listening (run v init_sys acts) \<and>
      frame_key d = Some (JInt m) \<and> untouched m mid"
  with run_ids[of v acts m] have le: "m \<le> cdp_message_id (glob (run v init_sys acts))"
    by (simp add: run_counter init_sys_def init_globals_def)
  from a filed_then_checked[OF _ _ le, of w d mid v]
  have "outcome (run v (run v init_sys acts) (Recv (Frame d) # mid @ [Poll m])) m =
          Some (resolve v d)" by simp
  with a resolve_answer[of d "JInt m" v]
  show "\<exists>r. outcome (run v init_sys (acts @ Recv (Frame d) # mid @ [Poll m])) m = Some r \<and>
           frame_answer v d r"
    by (simp add: run_append)
qed

lemmas run_eval = call_def poll_def recv_def init_sys_def init_globals_def Let_def
  listener_def cdp_listener_def cdp_listener_body_def listen_for_messages_def listen_body_def
  resolve_def resolve_rich_def resolve_simple_def

theorem correlation_witness:
  "allocated Rich init_sys out_of_order = [1, 2] \<and>
   allocated Simple init_sys out_of_order = [1, 2] \<and>
   outcome (run Rich init_sys out_of_order) 1 = Some (Inr (JObj [(''who'', JStr ''A'')])) \<and>
   outcome (run Rich init_sys out_of_order) 2 = Some (Inr (JObj [(''who'', JStr ''B'')])) \<and>
   outcome (run Simple init_sys out_of_order) 1 = Some (Inr (JObj [(''who'', JStr ''A'')])) \<and>
   outcome (run Simple init_sys out_of_order) 2 = Some (Inr (JObj [(''who'', JStr ''B'')])) \<and>
   waiting (run Rich init_sys [Call ''A'' (JObj [])]) 1 = Some (''A'', 0) \<and>
   listening (run Rich init_sys [Call ''A'' (JObj [])]) \<and>
   frame_key frame_E = Some (JInt 1) \<and>
   untouched 1 [Call ''B'' (JObj []), Poll 2] \<and>
   outcome (run Rich init_sys
      ([Call ''A'' (JObj [])] @ Recv (Frame frame_E) # [Call ''B'' (JObj []), Poll 2] @ [Poll 1])) 1 =
     Some (Inl (RuntimeError [Lit ''CDP Error: '', Lit ''no'']))"
proof -
  have a: "allocated Rich init_sys out_of_order = [1, 2]"
    "allocated Simple init_sys out_of_order = [1, 2]"
    by (simp_all add: run_eval)
  have r: "outcome (run Rich init_sys out_of_order) 1 = Some (Inr (JObj [(''who'', JStr ''A'')]))"
    "outcome (run Rich init_sys out_of_order) 2 = Some (Inr (JObj [(''who'', JStr ''B'')]))"
    by (simp_all add: run_eval)
  have s: "outcome (run Simple init_sys out_of_order) 1 = Some (Inr (JObj [(''who'', JStr ''A'')]))"
    "outcome (run Simple init_sys out_of_order) 2 = Some (Inr (JObj [(''who'', JStr ''B'')]))"
    by (simp_all add: run_eval)
  have p: "waiting (run Rich init_sys [Call ''A'' (JObj [])]) 1 = Some (''A'', 0) \<and>
      listening (run Rich init_sys [Call ''A'' (JObj [])]) \<and>
      frame_key frame_E = Some (JInt 1) \<and> untouched 1 [Call ''B'' (JObj []), Poll 2]"
    by (simp add: run_eval frame_key_def untouched_def)
  from correlation[of Rich "[Call ''A'' (JObj [])]", THEN conjunct2, THEN conjunct2,
      rule_format, OF p]
  obtain x where x: "outcome (run Rich init_sys
      ([Call ''A'' (JObj [])] @ Recv (Frame frame_E) # [Call ''B'' (JObj []), Poll 2] @ [Poll 1])) 1 =
       Some x" "frame_answer Rich frame_E x"
    by blast
  from x(2) have "x = Inl (RuntimeError [Lit ''CDP Error: '', Lit ''no''])"
    by (simp add: frame_answer_def)
  with x(1) a r s p show ?thesis by simp
qed

text \<open>
  Claim C1 as stated fails in the simple variant. A call that has made its 100
  checks has failed with \<^verbatim>\<open>TimeoutError\<close>, and the frame with its identifier that
  arrives afterwards does not resolve it. And a call answered by a frame with an
  error object returns the empty result, not the error of its frame.
\<close>

theorem correlation_counterexample:
  "outcome (run Simple init_sys
      (Call ''Target.getTargets'' (JObj []) # replicate 100 (Poll 1) @
       [Recv (Frame (JObj [(''id'', JInt 1), (''result'', JObj [(''targetInfos'', JArr [])])]))])) 1 =
     Some (Inl (TimeoutError [Lit ''No response for command '', Lit ''Target.getTargets''])) \<and>
   outcome (run Simple init_sys
      [Call ''Target.getTargets'' (JObj []),
       Recv (Frame (JObj [(''id'', JInt 1),
                          (''error'', JObj [(''code'', JInt (- 32000)),
                                            (''message'', JStr ''Not allowed'')])])),
       Poll 1]) 1 = Some (Inr (JObj []))"
proof -
  let ?s = "call init_sys ''Target.getTargets'' (JObj [])"
  have h: "waiting ?s 1 = Some (''Target.getTargets'', 0)"
    "cdp_responses (glob ?s) (JInt 1) = None" "1 \<le> cdp_message_id (glob ?s)"
    "\<not> listening ?s \<or> filter (delivers 1) (replicate 100 (Poll 1)) = []"
    "(0::nat) < 100" "outcome ?s 1 = None"
    by (simp_all add: call_def init_sys_def init_globals_def Let_def)
  have p: "polls 1 (replicate 100 (Poll 1)) = 100" by (simp add: polls_def)
  from run_wait_simple[OF h] p
  have t: "waiting (run Simple ?s (replicate 100 (Poll 1))) 1 = None"
    "outcome (run Simple ?s (replicate 100 (Poll 1))) 1 =
       Some (Inl (TimeoutError [Lit ''No response for command '', Lit ''Target.getTargets'']))"
    by simp_all
  have "cdp_message_id (glob (run Simple ?s (replicate 100 (Poll 1)))) =
          cdp_message_id (glob ?s)"
    by (simp add: run_counter)
  with h(3) have le: "1 \<le> cdp_message_id (glob (run Simple ?s (replicate 100 (Poll 1))))"
    by simp
  from run_done[OF t(1) le, where v=Simple and acts="[Recv (Frame (JObj [(''id'', JInt 1),
      (''result'', JObj [(''targetInfos'', JArr [])])]))]"] t(2)
  have 1: "outcome (run Simple init_sys
      (Call ''Target.getTargets'' (JObj []) # replicate 100 (Poll 1) @
       [Recv (Frame (JObj [(''id'', JInt 1), (''result'', JObj [(''targetInfos'', JArr [])])]))])) 1 =
     Some (Inl (TimeoutError [Lit ''No response for command '', Lit ''Target.getTargets'']))"
    by (simp add: run_append)
  have 2: "outcome (run Simple init_sys
      [Call ''Target.getTargets'' (JObj []),
       Recv (Frame (JObj [(''id'', JInt 1),
                          (''error'', JObj [(''code'', JInt (- 32000)),
                                            (''message'', JStr ''Not allowed'')])])),
       Poll 1]) 1 = Some (Inr (JObj []))"
    by (simp add: run_eval)
  from 1 2 show ?thesis by simp
qed

section \<open>The tools and the queries\<close>

text \<open>The resolution policy of the two variants on a response that is a dict.\<close>

lemma resolve_rich_policy:
  "map_of kvs ''error'' = Some err \<Longrightarrow> py_getitem err ''message'' = Inr msg \<Longrightarrow>
     resolve_rich (JObj kvs) = Inl (RuntimeError (Lit ''CDP Error: '' # fmt msg))"
  "map_of kvs ''error'' = None \<Longrightarrow>
     resolve_rich (JObj kvs) = Inr (case map_of kvs ''result'' of None \<Rightarrow> JObj [] | Some r \<Rightarrow> r)"
  "resolve_simple (JObj kvs) = Inr (case map_of kvs ''result'' of None \<Rightarrow> JObj [] | Some r \<Rightarrow> r)"
  by (simp_all add: resolve_rich_def resolve_simple_def)

lemma poll_idle: "waiting s m = None \<Longrightarrow> poll v s m = s"
  by (simp add: poll_def)

lemma polls_idle: "waiting s m = None \<Longrightarrow> run v s (replicate n (Poll m)) = s"
  by (induction n) (simp_all add: poll_idle)

lemma polls_after_first:
  "waiting (poll v s m) m = None \<Longrightarrow> run v s (replicate (Suc n) (Poll m)) = poll v s m"
  by (simp add: polls_idle)

lemma poll_absent_conn:
  "cdp_responses (glob s) (JInt m) = None \<Longrightarrow>
     conn.truncate (poll v s m) = conn.truncate s \<and>
     cdp_responses (glob (poll v s m)) (JInt m) = None"
  by (simp add: poll_def conn.truncate_def split: option.splits)

lemma polls_absent_conn:
  "cdp_responses (glob s) (JInt m) = None \<Longrightarrow>
     conn.truncate (run v s (replicate n (Poll m))) = conn.truncate s"
proof (induction n arbitrary: s)
  case 0
  then show ?case by simp
next
  case (Suc n)
  from poll_absent_conn[OF Suc.prems, of v] Suc.IH[of "poll v s m"] show ?case by simp
qed

text \<open>
  The reading of \<^verbatim>\<open>send_cdp_command\<close> for a caller that runs alone is the
  interleaved one on a particular schedule: the call, the arrival of the remote's
  answer if there is one, then the checks of the wait loop (one in the richer
  variant, all 100 in the simple one).
\<close>

lemma send_cdp_command_agrees:
  assumes o: "ws_open s" and l: "listening s"
    and fresh: "outcome s (cdp_message_id (glob s) + 1) = None"
  shows "send_cdp_command v remote meth ps (conn.truncate s) =
     (let m = cdp_message_id (glob s) + 1;
          s' = run v s (Call meth ps #
                 (case remote (command m meth ps) of None \<Rightarrow> [] | Some f \<Rightarrow> [Recv (Frame f)]) @
                 replicate (case v of Rich \<Rightarrow> Suc 0 | Simple \<Rightarrow> 100) (Poll m))
      in ((case outcome s' m of
             None \<Rightarrow> Hang
           | Some (Inl e) \<Rightarrow> Exc e
           | Some (Inr r) \<Rightarrow> Ret r),
          conn.truncate s'))"
proof -
  let ?m = "cdp_message_id (glob s) + 1"
  let ?cmd = "command ?m meth ps"
  let ?s1 = "call s meth ps"
  let ?s2 = "run v ?s1 (case remote ?cmd of None \<Rightarrow> [] | Some f \<Rightarrow> [Recv (Frame f)])"
  let ?n = "case v of Rich \<Rightarrow> Suc 0 | Simple \<Rightarrow> 100"
  let ?g2 = "case remote ?cmd of None \<Rightarrow> glob ?s1
             | Some f \<Rightarrow> fst (listener v (glob ?s1) (Frame f))"
  have s2: "?s2 = ?s1\<lparr>glob := ?g2\<rparr>"
    using l o by (simp add: recv_def call_def Let_def split: option.splits)
  have w2: "waiting ?s2 ?m = Some (meth, 0)" "outcome ?s2 ?m = None"
    "sent ?s2 = sent s @ [?cmd]" "ws_open ?s2" "\<not> (\<not> listening ?s2)"
    unfolding s2 using o l fresh by (simp_all add: call_def Let_def)
  have g2id: "cdp_message_id ?g2 = ?m"
    using o by (simp add: call_def Let_def split: option.splits)
  have run_eq: "run v s (Call meth ps #
                 (case remote ?cmd of None \<Rightarrow> [] | Some f \<Rightarrow> [Recv (Frame f)]) @
                 replicate ?n (Poll ?m)) = run v ?s2 (replicate ?n (Poll ?m))"
    by (simp add: run_def)
  have seq: "send_cdp_command v remote meth ps (conn.truncate s) =
      (case cdp_responses ?g2 (JInt ?m) of
         None \<Rightarrow>
           ((case v of
               Rich \<Rightarrow> Hang
             | Simple \<Rightarrow> Exc (TimeoutError [Lit ''No response for command '', Lit meth])),
            \<lparr>glob = ?g2, sent = sent s @ [?cmd], ws_open = True\<rparr>)
       | Some response \<Rightarrow>
           ((case resolve v response of Inl e \<Rightarrow> Exc e | Inr r \<Rightarrow> Ret r),
            \<lparr>glob = ?g2\<lparr>cdp_responses := (cdp_responses ?g2)(JInt ?m := None)\<rparr>,
             sent = sent s @ [?cmd], ws_open = True\<rparr>))"
    using o
    by (simp add: send_cdp_command_def await_response_def Let_def conn.truncate_def call_def
        split: option.splits)
  show ?thesis
  proof (cases "cdp_responses ?g2 (JInt ?m)")
    case (Some response)
    have p1: "poll v ?s2 ?m =
        ?s2\<lparr>glob := ?g2\<lparr>cdp_responses := (cdp_responses ?g2)(JInt ?m := None)\<rparr>,
            waiting := (waiting ?s2)(?m := None),
            outcome := (outcome ?s2)(?m \<mapsto> resolve v response)\<rparr>"
      using Some w2(1) unfolding s2 by (simp add: poll_def)
    have idle: "waiting (poll v ?s2 ?m) ?m = None" unfolding p1 by simp
    have "run v ?s2 (replicate ?n (Poll ?m)) = poll v ?s2 ?m"
    proof (cases v)
      case Rich
      with polls_after_first[OF idle, of 0] show ?thesis by simp
    next
      case Simple
      with polls_after_first[OF idle, of 99] show ?thesis by simp
    qed
    with Some seq run_eq p1 w2(3,4) show ?thesis
      unfolding s2 by (simp add: Let_def conn.truncate_def split: sum.splits)
  next
    case None
    have r2: "cdp_responses (glob ?s2) (JInt ?m) = None" unfolding s2 using None by simp
    have le: "?m \<le> cdp_message_id (glob ?s2)" unfolding s2 using g2id by simp
    have d: "\<not> listening ?s2 \<or> filter (delivers ?m) (replicate ?n (Poll ?m)) = []" by simp
    have tr: "conn.truncate (run v ?s2 (replicate ?n (Poll ?m))) = conn.truncate ?s2"
      by (rule polls_absent_conn[OF r2])
    have tr2: "conn.truncate ?s2 = \<lparr>glob = ?g2, sent = sent s @ [?cmd], ws_open = True\<rparr>"
      unfolding s2 using o by (simp add: conn.truncate_def call_def Let_def)
    show ?thesis
    proof (cases v)
      case Rich
      from run_wait_rich[OF w2(1) r2 le d] w2(2) Rich
      have "outcome (run v ?s2 (replicate ?n (Poll ?m))) ?m = None" by simp
      with None seq run_eq tr tr2 Rich show ?thesis by (simp add: Let_def)
    next
      case Simple
      have "polls ?m (replicate 100 (Poll ?m)) = 100" by (simp add: polls_def)
      with run_wait_simple[OF w2(1) r2 le _ _ w2(2), of "replicate 100 (Poll ?m)"] Simple
      have "outcome (run v ?s2 (replicate ?n (Poll ?m))) ?m =
              Some (Inl (TimeoutError [Lit ''No response for command '', Lit meth]))"
        by simp
      with None seq run_eq tr tr2 Simple show ?thesis by (simp add: Let_def)
    qed
  qed
qed

lemma listen_targets_frame:
  "cdp_responses (fst (listener v g (Frame targets_frame))) (JInt 1) = Some targets_frame"
  by (simp add: listener_responses frame_key_def)

lemma page_tabs_scenario:
  "page_tabs Simple (JObj [(''targetInfos'',
              JArr [JObj [(''targetId'', JStr ''T1''), (''type'', JStr ''page''),
                          (''title'', JStr ''A''), (''url'', JStr ''http://x'')]])]) =
     Inr (JObj [(''tabs'', JArr [JObj [(''id'', JStr ''T1''), (''title'', JStr ''A''),
                                       (''url'', JStr ''http://x'')]])])"
  "page_tabs Rich (JObj [(''targetInfos'',
              JArr [JObj [(''targetId'', JStr ''T1''), (''type'', JStr ''page''),
                          (''title'', JStr ''A''), (''url'', JStr ''http://x'')]])]) =
     Inr (JObj [(''tabs'', JArr [JObj [(''id'', JStr ''T1''), (''title'', JStr ''A''),
                                       (''url'', JStr ''http://x''), (''type'', JStr ''page'')]])])"
  by (simp_all add: page_tabs_def tab_entry_def ebind_def)

lemma send_get_targets:
  assumes "remote (command 1 ''Target.getTargets'' (JObj [])) = Some targets_frame"
    "cdp_message_id (glob c) = 0" "ws_open c"
  shows "fst (send_cdp_command v remote ''Target.getTargets'' (JObj []) c) =
           Ret (JObj [(''targetInfos'',
              JArr [JObj [(''targetId'', JStr ''T1''), (''type'', JStr ''page''),
                          (''title'', JStr ''A''), (''url'', JStr ''http://x'')]])])"
  using assms
  by (cases v)
     (simp_all add: send_cdp_command_def await_response_def Let_def listen_targets_frame
        resolve_def resolve_rich_def resolve_simple_def)

text \<open>
  Claim C9, as the code has it. The connection is there, the counter is at 0 and the
  command \<^verbatim>\<open>Target.getTargets\<close> (identifier 1) is answered by the frame of the
  scenario. The simple variant returns \<^verbatim>\<open>{"tabs": [{"id": "T1", "title": "A",
  "url": "http://x"}]}\<close>; the richer variant returns the same list with a fourth
  field \<^verbatim>\<open>"type": "page"\<close> in the entry.
\<close>

theorem list_tabs_scenario:
  assumes "remote (command 1 ''Target.getTargets'' (JObj [])) = Some targets_frame"
    and "cdp_message_id (glob c) = 0"
  shows "fst (list_tabs Simple remote True c) =
           Ret (Payload (JObj [(''tabs'',
             JArr [JObj [(''id'', JStr ''T1''), (''title'', JStr ''A''),
                         (''url'', JStr ''http://x'')]])])) \<and>
         (ws_open c \<longrightarrow>
          fst (list_tabs Rich remote True c) =
           Ret (Payload (JObj [(''tabs'',
             JArr [JObj [(''id'', JStr ''T1''), (''title'', JStr ''A''),
                         (''url'', JStr ''http://x''), (''type'', JStr ''page'')]])])))"
proof -
  have o: "cdp_message_id (glob (c\<lparr>ws_open := True\<rparr>)) = 0" "ws_open (c\<lparr>ws_open := True\<rparr>)"
    using assms(2) by simp_all
  have s: "fst (list_tabs Simple remote True c) =
           Ret (Payload (JObj [(''tabs'',
             JArr [JObj [(''id'', JStr ''T1''), (''title'', JStr ''A''),
                         (''url'', JStr ''http://x'')]])]))"
    using send_get_targets[where remote=remote and c="c\<lparr>ws_open := True\<rparr>" and v=Simple, OF assms(1) o]
      page_tabs_scenario(1)
    by (cases "send_cdp_command Simple remote ''Target.getTargets'' (JObj []) (c\<lparr>ws_open := True\<rparr>)")
       (simp add: list_tabs_def list_tabs_simple_def rbind_def lift_def)
  have r: "fst (list_tabs Rich remote True c) =
           Ret (Payload (JObj [(''tabs'',
             JArr [JObj [(''id'', JStr ''T1''), (''title'', JStr ''A''),
                         (''url'', JStr ''http://x''), (''type'', JStr ''page'')]])]))"
    if "ws_open c"
    using send_get_targets[where remote=remote and c=c and v=Rich, OF assms that]
      page_tabs_scenario(2)
    by (cases "send_cdp_command Rich remote ''Target.getTargets'' (JObj []) c")
       (simp add: list_tabs_def list_tabs_rich_def rbind_def lift_def)
  from s r show ?thesis by simp
qed

theorem list_tabs_scenario_witness:
  "scripted [Some targets_frame] (command 1 ''Target.getTargets'' (JObj [])) = Some targets_frame \<and>
   cdp_message_id (glob init_conn) = 0 \<and> ws_open init_conn \<and>
   fst (list_tabs Simple (scripted [Some targets_frame]) True init_conn) =
           Ret (Payload (JObj [(''tabs'',
             JArr [JObj [(''id'', JStr ''T1''), (''title'', JStr ''A''),
                         (''url'', JStr ''http://x'')]])])) \<and>
   fst (list_tabs Rich (scripted [Some targets_frame]) True init_conn) =
           Ret (Payload (JObj [(''tabs'',
             JArr [JObj [(''id'', JStr ''T1''), (''title'', JStr ''A''),
                         (''url'', JStr ''http://x''), (''type'', JStr ''page'')]])]))"
proof -
  have h: "scripted [Some targets_frame] (command 1 ''Target.getTargets'' (JObj [])) = Some targets_frame"
    "cdp_message_id (glob init_conn) = 0" "ws_open init_conn"
    by (simp_all add: scripted_def command_def init_conn_def init_globals_def)
  from list_tabs_scenario[where remote="scripted [Some targets_frame]" and c=init_conn, OF h(1,2)] h
  show ?thesis by simp
qed

text \<open>
  Claim C9 as stated fails in the richer variant: the entry of the tab list carries
  \<^verbatim>\<open>type\<close>, so the list is not the one of the claim.
\<close>

theorem list_tabs_counterexample:
  "fst (list_tabs Rich (scripted [Some targets_frame]) True init_conn) =
     Ret (Payload (JObj [(''tabs'',
       JArr [JObj [(''id'', JStr ''T1''), (''title'', JStr ''A''),
                   (''url'', JStr ''http://x''), (''type'', JStr ''page'')]])])) \<and>
   JArr [JObj [(''id'', JStr ''T1''), (''title'', JStr ''A''),
               (''url'', JStr ''http://x''), (''type'', JStr ''page'')]] \<noteq>
   JArr [JObj [(''id'', JStr ''T1''), (''title'', JStr ''A''), (''url'', JStr ''http://x'')]]"
proof -
  have h: "scripted [Some targets_frame] (command 1 ''Target.getTargets'' (JObj [])) = Some targets_frame"
    "cdp_message_id (glob init_conn) = 0" "ws_open init_conn"
    by (simp_all add: scripted_def command_def init_conn_def init_globals_def)
  have "fst (send_cdp_command Rich (scripted [Some targets_frame]) ''Target.getTargets'' (JObj []) init_conn) =
           Ret (JObj [(''targetInfos'',
              JArr [JObj [(''targetId'', JStr ''T1''), (''type'', JStr ''page''),
                          (''title'', JStr ''A''), (''url'', JStr ''http://x'')]])])"
    by (rule send_get_targets[where remote="scripted [Some targets_frame]" and c=init_conn, OF h])
  then show ?thesis
    using page_tabs_scenario(2)
    by (cases "send_cdp_command Rich (scripted [Some targets_frame]) ''Target.getTargets'' (JObj []) init_conn")
       (simp add: list_tabs_def list_tabs_rich_def rbind_def lift_def)
qed

text \<open>
  Claim C10. \<^verbatim>\<open>get_console_logs\<close> and \<^verbatim>\<open>get_network_requests\<close> hand the module
  state back as they found it (event store, response map and message counter), also
  when they raise; a second call, of either, returns what it would have returned
  before. The only objects \<^verbatim>\<open>get_network_requests\<close> mutates are its own
  \<^verbatim>\<open>request_map\<close> and the dicts it creates for it.
\<close>

theorem queries_leave_state:
  "snd (get_console_logs g) = g \<and> snd (get_network_requests g) = g \<and>
   cdp_events (snd (get_console_logs g)) = cdp_events g \<and>
   cdp_responses (snd (get_console_logs g)) = cdp_responses g \<and>
   cdp_message_id (snd (get_console_logs g)) = cdp_message_id g \<and>
   cdp_events (snd (get_network_requests g)) = cdp_events g \<and>
   cdp_responses (snd (get_network_requests g)) = cdp_responses g \<and>
   cdp_message_id (snd (get_network_requests g)) = cdp_message_id g \<and>
   fst (get_console_logs (snd (get_console_logs g))) = fst (get_console_logs g) \<and>
   fst (get_network_requests (snd (get_network_requests g))) = fst (get_network_requests g) \<and>
   fst (get_console_logs (snd (get_network_requests g))) = fst (get_console_logs g) \<and>
   fst (get_network_requests (snd (get_console_logs g))) = fst (get_network_requests g)"
proof -
  have c: "snd (get_console_logs g) = g"
    by (simp add: get_console_logs_def split: option.splits)
  have n: "snd (get_network_requests g) = g"
    by (simp add: get_network_requests_def split: option.splits)
  show ?thesis by (simp add: c n)
qed

lemma await_response_conn:
  "sent (snd (await_response v remote c cmd m meth)) = sent c \<and>
   ws_open (snd (await_response v remote c cmd m meth)) = ws_open c \<and>
   cdp_message_id (glob (snd (await_response v remote c cmd m meth))) = cdp_message_id (glob c)"
  by (simp add: await_response_def Let_def split: option.splits)

lemma send_cdp_command_conn:
  assumes "ws_open c"
  shows "sent (snd (send_cdp_command v remote meth ps c)) =
           sent c @ [command (cdp_message_id (glob c) + 1) meth ps]"
    "ws_open (snd (send_cdp_command v remote meth ps c))"
    "cdp_message_id (glob (snd (send_cdp_command v remote meth ps c))) = cdp_message_id (glob c) + 1"
  using assms by (simp_all add: send_cdp_command_def Let_def await_response_conn)

lemma send_cdp_command_closed:
  "\<not> ws_open c \<Longrightarrow> fst (send_cdp_command v remote meth ps c) = Exc ConnectionClosed"
  by (simp add: send_cdp_command_def Let_def)

lemma send_page_command_conn:
  assumes "ws_open c"
  shows "sent (snd (send_page_command remote sid meth ps c)) =
           sent c @ [page_command sid (cdp_message_id (glob c) + 1) meth ps]"
    "ws_open (snd (send_page_command remote sid meth ps c))"
    "cdp_message_id (glob (snd (send_page_command remote sid meth ps c))) = cdp_message_id (glob c) + 1"
  using assms by (simp_all add: send_page_command_def Let_def await_response_conn)

lemma lift_conn [simp]: "snd (lift x c) = c"
  by (simp add: lift_def split: sum.splits)

lemma create_tab_session_conn:
  assumes "create_tab_session remote target_id c = (Ret sid, c1)"
  shows "ws_open c1 \<and>
         sent c1 = sent c @ [command (cdp_message_id (glob c) + 1) ''Target.attachToTarget''
                       (JObj [(''targetId'', JStr target_id), (''flatten'', JBool True)])]"
proof -
  let ?x = "send_cdp_command Rich remote ''Target.attachToTarget''
              (JObj [(''targetId'', JStr target_id), (''flatten'', JBool True)]) c"
  have o: "ws_open c"
  proof (rule ccontr)
    assume "\<not> ws_open c"
    from send_cdp_command_closed[OF this, of Rich remote "''Target.attachToTarget''"
        "JObj [(''targetId'', JStr target_id), (''flatten'', JBool True)]"] assms
    show False
      by (cases ?x) (simp add: create_tab_session_def rbind_def)
  qed
  obtain r c' where x: "?x = (r, c')" by (cases ?x)
  from assms x have "c1 = c'"
    by (cases r) (auto simp: create_tab_session_def rbind_def lift_def split: sum.splits)
  with send_cdp_command_conn(1,2)[OF o, of Rich remote "''Target.attachToTarget''"
      "JObj [(''targetId'', JStr target_id), (''flatten'', JBool True)]"] x
  show ?thesis by simp
qed

lemma no_detach_page [simp]:
  "py_getitem (page_command sid m ''DOM.getDocument'' ps) ''method'' \<noteq>
     Inr (JStr ''Target.detachFromTarget'')"
  "py_getitem (page_command sid m ''DOM.getOuterHTML'' ps) ''method'' \<noteq>
     Inr (JStr ''Target.detachFromTarget'')"
  "py_getitem (command m ''Target.attachToTarget'' ps) ''method'' \<noteq>
     Inr (JStr ''Target.detachFromTarget'')"
  "py_getitem (command m ''Target.detachFromTarget'' ps) ''method'' =
     Inr (JStr ''Target.detachFromTarget'')"
  by (simp_all add: page_command_def command_def)

lemma tab_content_body_conn:
  assumes "ws_open c1" "tab_content_body remote sid c1 = (body, c2)"
  shows "ws_open c2 \<and> (\<exists>new. sent c2 = sent c1 @ new \<and> \<not> detach_sent new)"
proof -
  let ?d = "send_page_command remote sid ''DOM.getDocument'' (JObj [(''depth'', JInt 1)]) c1"
  obtain r c' where d: "?d = (r, c')" by (cases ?d)
  from send_page_command_conn(1,2)[OF assms(1), of remote sid "''DOM.getDocument''"
      "JObj [(''depth'', JInt 1)]"] d
  have c': "ws_open c'"
    "sent c' = sent c1 @ [page_command sid (cdp_message_id (glob c1) + 1) ''DOM.getDocument''
                            (JObj [(''depth'', JInt 1)])]"
    by simp_all
  show ?thesis
  proof (cases r)
    case (Ret doc)
    show ?thesis
    proof (cases "ebind (py_getitem doc ''root'') (\<lambda>root. py_getitem root ''nodeId'')")
      case (Inl e)
      with Ret d assms(2) have "c2 = c'"
        by (simp add: tab_content_body_def rbind_def lift_def)
      with c' show ?thesis by (auto simp: detach_sent_def)
    next
      case (Inr root_node_id)
      let ?h = "send_page_command remote sid ''DOM.getOuterHTML''
                  (JObj [(''nodeId'', root_node_id)]) c'"
      from Inr Ret d assms(2) have "c2 = snd ?h"
        by (cases ?h) (simp add: tab_content_body_def rbind_def lift_def)
      with send_page_command_conn(1,2)[OF c'(1), of remote sid "''DOM.getOuterHTML''"
          "JObj [(''nodeId'', root_node_id)]"] c'
      show ?thesis by (auto simp: detach_sent_def)
    qed
  next
    case (Exc e)
    with d assms(2) have "c2 = c'" by (simp add: tab_content_body_def rbind_def)
    with c' show ?thesis by (auto simp: detach_sent_def)
  next
    case Hang
    with d assms(2) have "c2 = c'" by (simp add: tab_content_body_def rbind_def)
    with c' show ?thesis by (auto simp: detach_sent_def)
  qed
qed

lemma detach_sent_append [simp]: "detach_sent (xs @ ys) = (detach_sent xs \<or> detach_sent ys)"
  by (auto simp: detach_sent_def list_ex_iff)

lemma rbind_conn_Exc: "x = (Exc e, c) \<Longrightarrow> rbind x f = (Exc e, c)"
  by (simp add: rbind_def)

lemma rbind_conn_Hang: "x = (Hang, c) \<Longrightarrow> rbind x f = (Hang, c)"
  by (simp add: rbind_def)

lemma rbind_conn_Ret: "x = (Ret a, c) \<Longrightarrow> rbind x f = f a c"
  by (simp add: rbind_def)

lemma get_tab_content_conn:
  "snd (get_tab_content remote True target_id c) = snd (tab_content_try remote target_id c)"
  by (simp add: get_tab_content_def split: prod.splits res.splits py_error.splits)

lemma get_tab_content_Exc:
  "tab_content_try remote target_id c = (Exc e, c') \<Longrightarrow>
     \<exists>msg. fst (get_tab_content remote True target_id c) = Ret (ErrorReply msg)"
  by (cases e) (simp_all add: get_tab_content_def)

lemma tab_content_detach:
  assumes "create_tab_session remote target_id c = (Ret session_id, c1)"
    and "tab_content_body remote session_id c1 = (body, c2)"
  shows "\<not> detach_sent (drop (length (sent c)) (sent c2)) \<and>
         (case body of
            Ret html_result \<Rightarrow>
              sent (snd (get_tab_content remote True target_id c)) =
                sent c2 @ [command (cdp_message_id (glob c2) + 1) ''Target.detachFromTarget''
                             (JObj [(''sessionId'', session_id)])]
          | Exc e \<Rightarrow>
              snd (get_tab_content remote True target_id c) = c2 \<and>
              (\<exists>msg. fst (get_tab_content remote True target_id c) = Ret (ErrorReply msg))
          | Hang \<Rightarrow> get_tab_content remote True target_id c = (Hang, c2))"
proof -
  from create_tab_session_conn[OF assms(1)]
  have c1: "ws_open c1" "\<exists>a. sent c1 = sent c @ [a] \<and> \<not> detach_sent [a]"
    by (simp_all add: detach_sent_def)
  from tab_content_body_conn[OF c1(1) assms(2)]
  have c2: "ws_open c2" "\<exists>new. sent c2 = sent c1 @ new \<and> \<not> detach_sent new"
    by simp_all
  from c1(2) c2(2) have nd: "\<not> detach_sent (drop (length (sent c)) (sent c2))"
    by (auto simp: detach_sent_def)
  have t: "tab_content_try remote target_id c =
     rbind (tab_content_body remote session_id c1) (\<lambda>html_result. \<lambda>c2.
     rbind (send_cdp_command Rich remote ''Target.detachFromTarget''
              (JObj [(''sessionId'', session_id)]) c2) (\<lambda>detached. \<lambda>c3.
     rbind (lift (py_get html_result ''outerHTML'' (JStr '''')) c3) (\<lambda>outer.
       Pair (Ret (JObj [(''targetId'', JStr target_id), (''outerHTML'', outer)])))))"
    by (simp add: tab_content_try_def rbind_conn_Ret[OF assms(1)])
  show ?thesis
  proof (cases body)
    case (Exc e)
    with assms(2) t have "tab_content_try remote target_id c = (Exc e, c2)"
      by (simp add: rbind_def)
    with Exc nd get_tab_content_Exc[of remote target_id c e c2]
      get_tab_content_conn[of remote target_id c]
    show ?thesis by simp
  next
    case Hang
    with assms(2) t have "tab_content_try remote target_id c = (Hang, c2)"
      by (simp add: rbind_def)
    with Hang nd show ?thesis by (simp add: get_tab_content_def)
  next
    case (Ret html_result)
    let ?d = "send_cdp_command Rich remote ''Target.detachFromTarget''
                (JObj [(''sessionId'', session_id)]) c2"
    obtain r c3 where d: "?d = (r, c3)" by (cases ?d)
    from send_cdp_command_conn(1)[OF c2(1), of Rich remote "''Target.detachFromTarget''"
        "JObj [(''sessionId'', session_id)]"] d
    have s3: "sent c3 = sent c2 @ [command (cdp_message_id (glob c2) + 1)
                ''Target.detachFromTarget'' (JObj [(''sessionId'', session_id)])]"
      by simp
    from Ret assms(2) t d
    have "snd (tab_content_try remote target_id c) = c3"
      by (cases r; cases "py_get html_result ''outerHTML'' (JStr '''')")
         (simp_all add: rbind_def lift_def)
    then have "snd (get_tab_content remote True target_id c) = c3"
      by (simp add: get_tab_content_conn)
    with Ret nd s3 show ?thesis by simp
  qed
qed

lemmas eval_defs = send_cdp_command_def send_page_command_def await_response_def Let_def
  listener_def cdp_listener_def cdp_listener_body_def resolve_def resolve_rich_def
  scripted_def command_def page_command_def init_conn_def init_globals_def
  create_tab_session_def tab_content_body_def tab_content_try_def get_tab_content_def
  rbind_def lift_def ebind_def

text \<open>
  Claim C6 as stated fails: attach succeeds, \<^verbatim>\<open>DOM.getDocument\<close> is answered with
  an error; the tool returns the error reply and the commands written are the attach
  and the \<^verbatim>\<open>DOM.getDocument\<close> only.
\<close>

theorem get_tab_content_counterexample:
  "fst (get_tab_content
          (scripted [Some (JObj [(''id'', JInt 1), (''result'', JObj [(''sessionId'', JStr ''S1'')])]),
                     Some (JObj [(''id'', JInt 2),
                                 (''error'', JObj [(''code'', JInt (- 32000)),
                                                   (''message'', JStr ''Target closed'')])])])
          True ''T1'' init_conn) =
     Ret (ErrorReply [Lit ''Error communicating with Chrome for tab '', Lit ''T1'', Lit '': '',
                      Lit ''CDP Error: '', Lit ''Target closed'']) \<and>
   sent (snd (get_tab_content
          (scripted [Some (JObj [(''id'', JInt 1), (''result'', JObj [(''sessionId'', JStr ''S1'')])]),
                     Some (JObj [(''id'', JInt 2),
                                 (''error'', JObj [(''code'', JInt (- 32000)),
                                                   (''message'', JStr ''Target closed'')])])])
          True ''T1'' init_conn)) =
     [command 1 ''Target.attachToTarget''
        (JObj [(''targetId'', JStr ''T1''), (''flatten'', JBool True)]),
      page_command (JStr ''S1'') 2 ''DOM.getDocument'' (JObj [(''depth'', JInt 1)])]"
  by (simp add: eval_defs)

lemma quiet_refl: "ws_open c \<Longrightarrow> quiet c c"
  by (simp add: quiet_def detach_sent_def)

lemma quiet_page:
  assumes "quiet c0 c" "meth \<noteq> ''Target.detachFromTarget''"
  shows "quiet c0 (snd (send_page_command remote sid meth ps c))"
proof -
  from assms(1) have o: "ws_open c" by (simp add: quiet_def)
  from assms(2) have "\<not> detach_sent [page_command sid (cdp_message_id (glob c) + 1) meth ps]"
    by (simp add: detach_sent_def page_command_def)
  with assms(1) send_page_command_conn(1,2)[OF o, of remote sid meth ps] show ?thesis
    by (auto simp: quiet_def)
qed

lemma quiet_send:
  assumes "quiet c0 c" "meth \<noteq> ''Target.detachFromTarget''"
  shows "quiet c0 (snd (send_cdp_command v remote meth ps c))"
proof -
  from assms(1) have o: "ws_open c" by (simp add: quiet_def)
  from assms(2) have "\<not> detach_sent [command (cdp_message_id (glob c) + 1) meth ps]"
    by (simp add: detach_sent_def command_def)
  with assms(1) send_cdp_command_conn(1,2)[OF o, of v remote meth ps] show ?thesis
    by (auto simp: quiet_def)
qed

lemma quiet_rbind:
  assumes "quiet c0 (snd x)" "\<And>a c1. quiet c0 c1 \<Longrightarrow> quiet c0 (snd (f a c1))"
  shows "quiet c0 (snd (rbind x f))"
proof -
  obtain r c1 where x: "x = (r, c1)" by (cases x)
  with assms show ?thesis by (cases r) (simp_all add: rbind_def)
qed

lemma quiet_no_detach: "quiet c c' \<Longrightarrow> \<not> detach_sent (drop (length (sent c)) (sent c'))"
  by (auto simp: quiet_def)

lemma sent_rbind_same:
  assumes "\<And>a c. sent (snd (f a c)) = sent c"
  shows "sent (snd (rbind x f)) = sent (snd x)"
proof -
  obtain r c1 where x: "x = (r, c1)" by (cases x)
  with assms show ?thesis by (cases r) (simp_all add: rbind_def)
qed

lemma inspect_body_quiet:
  assumes "ws_open c1"
  shows "quiet c1 (snd (inspect_body remote sid selector c1))"
  unfolding inspect_body_def
  by (intro quiet_rbind quiet_page quiet_refl assms)
     (simp_all add: quiet_page quiet_rbind)

lemma simple_content_body_quiet:
  assumes "ws_open c1"
  shows "quiet c1 (snd (simple_content_body remote sid c1))"
  unfolding simple_content_body_def
  by (intro quiet_rbind quiet_send quiet_refl assms)
     (simp_all add: quiet_send quiet_rbind)

lemma simple_attach_conn:
  assumes "simple_attach remote target_id c = (Ret sid, c1)"
  shows "quiet c c1"
proof -
  let ?x = "send_cdp_command Simple remote ''Target.attachToTarget''
              (JObj [(''targetId'', JStr target_id), (''flatten'', JBool True)]) c"
  have o: "ws_open c"
  proof (rule ccontr)
    assume "\<not> ws_open c"
    from send_cdp_command_closed[OF this, of Simple remote "''Target.attachToTarget''"
        "JObj [(''targetId'', JStr target_id), (''flatten'', JBool True)]"] assms
    show False
      by (cases ?x) (simp add: simple_attach_def rbind_def)
  qed
  have "quiet c (snd (simple_attach remote target_id c))"
    unfolding simple_attach_def
    by (intro quiet_rbind quiet_send quiet_refl o) simp_all
  with assms show ?thesis by simp
qed

lemma create_tab_session_quiet:
  assumes "create_tab_session remote target_id c = (Ret sid, c1)"
  shows "quiet c c1"
  using create_tab_session_conn[OF assms] by (auto simp: quiet_def detach_sent_def)

lemma quiet_trans: "quiet a b \<Longrightarrow> quiet b c \<Longrightarrow> quiet a c"
  by (auto simp: quiet_def)

lemma inspect_finish_sent:
  assumes "ws_open c"
  shows "sent (snd (inspect_finish remote sid target_id selector found c)) =
           sent c @ [command (cdp_message_id (glob c) + 1) ''Target.detachFromTarget''
                       (JObj [(''sessionId'', sid)])]"
proof -
  have "sent (snd (inspect_finish remote sid target_id selector found c)) =
        sent (snd (send_cdp_command Rich remote ''Target.detachFromTarget''
                     (JObj [(''sessionId'', sid)]) c))"
    unfolding inspect_finish_def
    by (rule sent_rbind_same)
       (auto simp: sent_rbind_same split: option.splits)
  with send_cdp_command_conn(1)[OF assms] show ?thesis by simp
qed

lemma simple_content_finish_sent:
  assumes "ws_open c"
  shows "sent (snd (simple_content_finish remote sid target_id html c)) =
           sent c @ [command (cdp_message_id (glob c) + 1) ''Target.detachFromTarget''
                       (JObj [(''sessionId'', sid)])]"
proof -
  have "sent (snd (simple_content_finish remote sid target_id html c)) =
        sent (snd (send_cdp_command Simple remote ''Target.detachFromTarget''
                     (JObj [(''sessionId'', sid)]) c))"
    unfolding simple_content_finish_def
    by (rule sent_rbind_same) (simp add: sent_rbind_same)
  with send_cdp_command_conn(1)[OF assms] show ?thesis by simp
qed

lemma inspect_element_conn:
  "snd (inspect_element remote True target_id selector c) =
     snd (inspect_try remote target_id selector c)"
  by (simp add: inspect_element_def split: prod.splits res.splits py_error.splits)

lemma inspect_element_Exc:
  "inspect_try remote target_id selector c = (Exc e, c') \<Longrightarrow>
     \<exists>msg. fst (inspect_element remote True target_id selector c) = Ret (ErrorReply msg)"
  by (cases e) (simp_all add: inspect_element_def)

lemma get_tab_content_simple_conn:
  "snd (get_tab_content_simple remote True target_id c) =
     snd (simple_content_try remote target_id (c\<lparr>ws_open := True\<rparr>))"
  by (simp add: get_tab_content_simple_def split: prod.splits res.splits)

lemma inspect_element_detach:
  assumes "create_tab_session remote target_id c = (Ret session_id, c1)"
    and "inspect_body remote session_id selector c1 = (body, c2)"
  shows "\<not> detach_sent (drop (length (sent c)) (sent c2)) \<and>
         (case body of
            Ret found \<Rightarrow>
              sent (snd (inspect_element remote True target_id selector c)) =
                sent c2 @ [command (cdp_message_id (glob c2) + 1) ''Target.detachFromTarget''
                             (JObj [(''sessionId'', session_id)])]
          | Exc e \<Rightarrow>
              snd (inspect_element remote True target_id selector c) = c2 \<and>
              (\<exists>msg. fst (inspect_element remote True target_id selector c) = Ret (ErrorReply msg))
          | Hang \<Rightarrow> inspect_element remote True target_id selector c = (Hang, c2))"
proof -
  from create_tab_session_quiet[OF assms(1)] have q1: "quiet c c1" .
  then have o1: "ws_open c1" by (simp add: quiet_def)
  from inspect_body_quiet[OF o1, of remote session_id selector] assms(2)
  have q2: "quiet c1 c2" by simp
  then have o2: "ws_open c2" by (simp add: quiet_def)
  from quiet_no_detach[OF quiet_trans[OF q1 q2]]
  have nd: "\<not> detach_sent (drop (length (sent c)) (sent c2))" .
  have t: "inspect_try remote target_id selector c =
     rbind (inspect_body remote session_id selector c1) (\<lambda>found.
       inspect_finish remote session_id target_id selector found)"
    by (simp add: inspect_try_def rbind_conn_Ret[OF assms(1)])
  show ?thesis
  proof (cases body)
    case (Exc e)
    with assms(2) t have "inspect_try remote target_id selector c = (Exc e, c2)"
      by (simp add: rbind_def)
    with Exc nd inspect_element_Exc[of remote target_id selector c e c2]
      inspect_element_conn[of remote target_id selector c]
    show ?thesis by simp
  next
    case Hang
    with assms(2) t have "inspect_try remote target_id selector c = (Hang, c2)"
      by (simp add: rbind_def)
    with Hang nd show ?thesis by (simp add: inspect_element_def)
  next
    case (Ret found)
    with assms(2) t have "inspect_try remote target_id selector c =
        inspect_finish remote session_id target_id selector found c2"
      by (simp add: rbind_def)
    with inspect_finish_sent[OF o2, of remote session_id target_id selector found]
    have "sent (snd (inspect_element remote True target_id selector c)) =
            sent c2 @ [command (cdp_message_id (glob c2) + 1) ''Target.detachFromTarget''
                         (JObj [(''sessionId'', session_id)])]"
      by (simp add: inspect_element_conn)
    with Ret nd show ?thesis by simp
  qed
qed

lemma simple_content_detach:
  assumes "simple_attach remote target_id (c\<lparr>ws_open := True\<rparr>) = (Ret session_id, c1)"
    and "simple_content_body remote session_id c1 = (body, c2)"
  shows "\<not> detach_sent (drop (length (sent c)) (sent c2)) \<and>
         (case body of
            Ret html \<Rightarrow>
              sent (snd (get_tab_content_simple remote True target_id c)) =
                sent c2 @ [command (cdp_message_id (glob c2) + 1) ''Target.detachFromTarget''
                             (JObj [(''sessionId'', session_id)])]
          | Exc e \<Rightarrow>
              get_tab_content_simple remote True target_id c = (Ret (ErrorReply (exc_str e)), c2)
          | Hang \<Rightarrow> get_tab_content_simple remote True target_id c = (Hang, c2))"
proof -
  from simple_attach_conn[OF assms(1)] have q1: "quiet (c\<lparr>ws_open := True\<rparr>) c1" .
  then have o1: "ws_open c1" by (simp add: quiet_def)
  from simple_content_body_quiet[OF o1, of remote session_id] assms(2)
  have q2: "quiet c1 c2" by simp
  then have o2: "ws_open c2" by (simp add: quiet_def)
  from quiet_no_detach[OF quiet_trans[OF q1 q2]]
  have nd: "\<not> detach_sent (drop (length (sent c)) (sent c2))" by simp
  have t: "simple_content_try remote target_id (c\<lparr>ws_open := True\<rparr>) =
     rbind (simple_content_body remote session_id c1) (\<lambda>html.
       simple_content_finish remote session_id target_id html)"
    by (simp add: simple_content_try_def rbind_conn_Ret[OF assms(1)])
  show ?thesis
  proof (cases body)
    case (Exc e)
    with assms(2) t have "simple_content_try remote target_id (c\<lparr>ws_open := True\<rparr>) = (Exc e, c2)"
      by (simp add: rbind_def)
    with Exc nd show ?thesis by (simp add: get_tab_content_simple_def)
  next
    case Hang
    with assms(2) t have "simple_content_try remote target_id (c\<lparr>ws_open := True\<rparr>) = (Hang, c2)"
      by (simp add: rbind_def)
    with Hang nd show ?thesis by (simp add: get_tab_content_simple_def)
  next
    case (Ret html)
    with assms(2) t have "simple_content_try remote target_id (c\<lparr>ws_open := True\<rparr>) =
        simple_content_finish remote session_id target_id html c2"
      by (simp add: rbind_def)
    with simple_content_finish_sent[OF o2, of remote session_id target_id html]
    have "sent (snd (get_tab_content_simple remote True target_id c)) =
            sent c2 @ [command (cdp_message_id (glob c2) + 1) ''Target.detachFromTarget''
                         (JObj [(''sessionId'', session_id)])]"
      by (simp add: get_tab_content_simple_conn)
    with Ret nd show ?thesis by simp
  qed
qed

text \<open>
  Claim C6, as the code has it, for the three operations that attach, run a body of
  session commands and detach: \<^verbatim>\<open>get_tab_content\<close> of \<^verbatim>\<open>server.py\<close>,
  \<^verbatim>\<open>inspect_element\<close>, and \<^verbatim>\<open>get_tab_content\<close> of \<^verbatim>\<open>simple_debug.py\<close>.
  After a successful attach, no detach is written while the body runs. When the
  body returns (in \<^verbatim>\<open>inspect_element\<close> also when it ends early because no node was
  found), \<^verbatim>\<open>Target.detachFromTarget\<close> for the session is the next command written.
  When a body command raises, the tool returns an error reply and writes nothing
  more: no detach. When a body command is never answered, the tool never returns.
\<close>

theorem session_detach:
  "(\<forall>session_id c1 body c2.
      create_tab_session remote target_id c = (Ret session_id, c1) \<and>
      tab_content_body remote session_id c1 = (body, c2) \<longrightarrow>
      \<not> detach_sent (drop (length (sent c)) (sent c2)) \<and>
      (case body of
         Ret html_result \<Rightarrow>
           sent (snd (get_tab_content remote True target_id c)) =
             sent c2 @ [command (cdp_message_id (glob c2) + 1) ''Target.detachFromTarget''
                          (JObj [(''sessionId'', session_id)])]
       | Exc e \<Rightarrow>
           snd (get_tab_content remote True target_id c) = c2 \<and>
           (\<exists>msg. fst (get_tab_content remote True target_id c) = Ret (ErrorReply msg))
       | Hang \<Rightarrow> get_tab_content remote True target_id c = (Hang, c2))) \<and>
   (\<forall>session_id c1 body c2.
      create_tab_session remote target_id c = (Ret session_id, c1) \<and>
      inspect_body remote session_id selector c1 = (body, c2) \<longrightarrow>
      \<not> detach_sent (drop (length (sent c)) (sent c2)) \<and>
      (case body of
         Ret found \<Rightarrow>
           sent (snd (inspect_element remote True target_id selector c)) =
             sent c2 @ [command (cdp_message_id (glob c2) + 1) ''Target.detachFromTarget''
                          (JObj [(''sessionId'', session_id)])]
       | Exc e \<Rightarrow>
           snd (inspect_element remote True target_id selector c) = c2 \<and>
           (\<exists>msg. fst (inspect_element remote True target_id selector c) = Ret (ErrorReply msg))
       | Hang \<Rightarrow> inspect_element remote True target_id selector c = (Hang, c2))) \<and>
   (\<forall>session_id c1 body c2.
      simple_attach remote target_id (c\<lparr>ws_open := True\<rparr>) = (Ret session_id, c1) \<and>
      simple_content_body remote session_id c1 = (body, c2) \<longrightarrow>
      \<not> detach_sent (drop (length (sent c)) (sent c2)) \<and>
      (case body of
         Ret html \<Rightarrow>
           sent (snd (get_tab_content_simple remote True target_id c)) =
             sent c2 @ [command (cdp_message_id (glob c2) + 1) ''Target.detachFromTarget''
                          (JObj [(''sessionId'', session_id)])]
       | Exc e \<Rightarrow>
           get_tab_content_simple remote True target_id c = (Ret (ErrorReply (exc_str e)), c2)
       | Hang \<Rightarrow> get_tab_content_simple remote True target_id c = (Hang, c2)))"
  using tab_content_detach[of remote target_id c] inspect_element_detach[of remote target_id c]
    simple_content_detach[of remote target_id c]
  by blast

lemmas session_eval = eval_defs inspect_body_def inspect_finish_def inspect_try_def
  inspect_element_def simple_attach_def simple_content_body_def simple_content_finish_def
  simple_content_try_def get_tab_content_simple_def listen_for_messages_def listen_body_def
  resolve_simple_def

theorem session_detach_witness:
  "fst (create_tab_session content_script ''T1'' init_conn) = Ret (JStr ''S1'') \<and>
   fst (tab_content_body content_script (JStr ''S1'')
          (snd (create_tab_session content_script ''T1'' init_conn))) =
     Ret (JObj [(''outerHTML'', JStr ''page'')]) \<and>
   sent (snd (get_tab_content content_script True ''T1'' init_conn)) =
     [command 1 ''Target.attachToTarget''
        (JObj [(''targetId'', JStr ''T1''), (''flatten'', JBool True)]),
      page_command (JStr ''S1'') 2 ''DOM.getDocument'' (JObj [(''depth'', JInt 1)]),
      page_command (JStr ''S1'') 3 ''DOM.getOuterHTML'' (JObj [(''nodeId'', JInt 7)]),
      command 4 ''Target.detachFromTarget'' (JObj [(''sessionId'', JStr ''S1'')])] \<and>
   fst (create_tab_session inspect_script ''T1'' init_conn) = Ret (JStr ''S1'') \<and>
   fst (inspect_body inspect_script (JStr ''S1'') ''h1''
          (snd (create_tab_session inspect_script ''T1'' init_conn))) =
     Ret (Some (JObj [(''node'', JObj [])], JObj [(''computedStyle'', JArr [])],
                JObj [(''outerHTML'', JStr ''h'')])) \<and>
   sent (snd (inspect_element inspect_script True ''T1'' ''h1'' init_conn)) =
     [command 1 ''Target.attachToTarget''
        (JObj [(''targetId'', JStr ''T1''), (''flatten'', JBool True)]),
      page_command (JStr ''S1'') 2 ''DOM.getDocument'' (JObj [(''depth'', JInt 1)]),
      page_command (JStr ''S1'') 3 ''DOM.querySelector''
        (JObj [(''nodeId'', JInt 7), (''selector'', JStr ''h1'')]),
      page_command (JStr ''S1'') 4 ''DOM.describeNode''
        (JObj [(''nodeId'', JInt 9), (''depth'', JInt 1), (''pierce'', JBool True)]),
      page_command (JStr ''S1'') 5 ''CSS.getComputedStyleForNode'' (JObj [(''nodeId'', JInt 9)]),
      page_command (JStr ''S1'') 6 ''DOM.getOuterHTML'' (JObj [(''nodeId'', JInt 9)]),
      command 7 ''Target.detachFromTarget'' (JObj [(''sessionId'', JStr ''S1'')])] \<and>
   fst (simple_attach content_script ''T1'' (init_conn\<lparr>ws_open := True\<rparr>)) = Ret (JStr ''S1'') \<and>
   fst (simple_content_body content_script (JStr ''S1'')
          (snd (simple_attach content_script ''T1'' (init_conn\<lparr>ws_open := True\<rparr>)))) =
     Ret (JObj [(''outerHTML'', JStr ''page'')]) \<and>
   sent (snd (get_tab_content_simple content_script True ''T1'' init_conn)) =
     [command 1 ''Target.attachToTarget''
        (JObj [(''targetId'', JStr ''T1''), (''flatten'', JBool True)]),
      command 2 ''DOM.getDocument'' (JObj [(''sessionId'', JStr ''S1''), (''depth'', JInt 1)]),
      command 3 ''DOM.getOuterHTML'' (JObj [(''sessionId'', JStr ''S1''), (''nodeId'', JInt 7)]),
      command 4 ''Target.detachFromTarget'' (JObj [(''sessionId'', JStr ''S1'')])]"
proof -
  let ?a = "create_tab_session content_script ''T1'' init_conn"
  let ?b = "tab_content_body content_script (JStr ''S1'') (snd ?a)"
  let ?ia = "create_tab_session inspect_script ''T1'' init_conn"
  let ?ib = "inspect_body inspect_script (JStr ''S1'') ''h1'' (snd ?ia)"
  let ?sa = "simple_attach content_script ''T1'' (init_conn\<lparr>ws_open := True\<rparr>)"
  let ?sb = "simple_content_body content_script (JStr ''S1'') (snd ?sa)"
  have f: "fst ?a = Ret (JStr ''S1'')" "fst ?b = Ret (JObj [(''outerHTML'', JStr ''page'')])"
    by (simp_all add: session_eval)
  have fi: "fst ?ia = Ret (JStr ''S1'')"
    "fst ?ib = Ret (Some (JObj [(''node'', JObj [])], JObj [(''computedStyle'', JArr [])],
                JObj [(''outerHTML'', JStr ''h'')]))"
    by (simp_all add: session_eval)
  have fs: "fst ?sa = Ret (JStr ''S1'')" "fst ?sb = Ret (JObj [(''outerHTML'', JStr ''page'')])"
    by (simp_all add: session_eval)
  have s: "sent (snd ?b) =
     [command 1 ''Target.attachToTarget''
        (JObj [(''targetId'', JStr ''T1''), (''flatten'', JBool True)]),
      page_command (JStr ''S1'') 2 ''DOM.getDocument'' (JObj [(''depth'', JInt 1)]),
      page_command (JStr ''S1'') 3 ''DOM.getOuterHTML'' (JObj [(''nodeId'', JInt 7)])]"
    "cdp_message_id (glob (snd ?b)) = 3"
    by (simp_all add: session_eval)
  have si: "sent (snd ?ib) =
     [command 1 ''Target.attachToTarget''
        (JObj [(''targetId'', JStr ''T1''), (''flatten'', JBool True)]),
      page_command (JStr ''S1'') 2 ''DOM.getDocument'' (JObj [(''depth'', JInt 1)]),
      page_command (JStr ''S1'') 3 ''DOM.querySelector''
        (JObj [(''nodeId'', JInt 7), (''selector'', JStr ''h1'')]),
      page_command (JStr ''S1'') 4 ''DOM.describeNode''
        (JObj [(''nodeId'', JInt 9), (''depth'', JInt 1), (''pierce'', JBool True)]),
      page_command (JStr ''S1'') 5 ''CSS.getComputedStyleForNode'' (JObj [(''nodeId'', JInt 9)]),
      page_command (JStr ''S1'') 6 ''DOM.getOuterHTML'' (JObj [(''nodeId'', JInt 9)])]"
    "cdp_message_id (glob (snd ?ib)) = 6"
    by (simp_all add: session_eval)
  have ss: "sent (snd ?sb) =
     [command 1 ''Target.attachToTarget''
        (JObj [(''targetId'', JStr ''T1''), (''flatten'', JBool True)]),
      command 2 ''DOM.getDocument'' (JObj [(''sessionId'', JStr ''S1''), (''depth'', JInt 1)]),
      command 3 ''DOM.getOuterHTML'' (JObj [(''sessionId'', JStr ''S1''), (''nodeId'', JInt 7)])]"
    "cdp_message_id (glob (snd ?sb)) = 3"
    by (simp_all add: session_eval)
  have h: "?a = (Ret (JStr ''S1''), snd ?a) \<and>
           ?b = (Ret (JObj [(''outerHTML'', JStr ''page'')]), snd ?b)"
    using f by (simp add: prod_eq_iff)
  have hi: "?ia = (Ret (JStr ''S1''), snd ?ia) \<and>
           ?ib = (Ret (Some (JObj [(''node'', JObj [])], JObj [(''computedStyle'', JArr [])],
                JObj [(''outerHTML'', JStr ''h'')])), snd ?ib)"
    using fi by (simp add: prod_eq_iff)
  have hs: "?sa = (Ret (JStr ''S1''), snd ?sa) \<and>
           ?sb = (Ret (JObj [(''outerHTML'', JStr ''page'')]), snd ?sb)"
    using fs by (simp add: prod_eq_iff)
  note w = session_detach[where remote=content_script and target_id="''T1''" and c=init_conn,
      THEN conjunct1, rule_format, OF h]
    session_detach[where remote=inspect_script and target_id="''T1''" and c=init_conn
      and selector="''h1''", THEN conjunct2, THEN conjunct1, rule_format, OF hi]
    session_detach[where remote=content_script and target_id="''T1''" and c=init_conn,
      THEN conjunct2, THEN conjunct2, rule_format, OF hs]
  from w f fi fs s si ss show ?thesis by simp
qed

section \<open>The network-request query\<close>

lemma hashable_key: "hashable v \<Longrightarrow> \<exists>k. hash_key v = Inr k"
  by (cases v) simp_all

lemma sub_field_ok:
  "(case map_of ps sub of None \<Rightarrow> True | Some x \<Rightarrow> is_dict x) \<Longrightarrow>
     \<exists>v. sub_field (JObj ps) sub k d = Inr v"
proof (cases "map_of ps sub")
  case None
  then show ?thesis by (simp add: sub_field_def ebind_def)
next
  case (Some x)
  assume "case map_of ps sub of None \<Rightarrow> True | Some x \<Rightarrow> is_dict x"
  with Some show ?thesis by (cases x) (simp_all add: sub_field_def ebind_def)
qed

lemma request_record_ok:
  assumes "params_ok ps"
  shows "\<exists>entry. request_record (JObj ps) request_id = Inr entry \<and>
           map_of entry ''status'' = Some (JStr ''pending'') \<and>
           map_of entry ''requestId'' = Some request_id"
proof -
  from assms have r: "case map_of ps ''request'' of None \<Rightarrow> True | Some x \<Rightarrow> is_dict x"
    by (simp add: params_ok_def)
  from sub_field_ok[OF r, of "''url''" "JStr ''''"] obtain url
    where 1: "sub_field (JObj ps) ''request'' ''url'' (JStr '''') = Inr url" by blast
  from sub_field_ok[OF r, of "''method''" "JStr ''''"] obtain meth
    where 2: "sub_field (JObj ps) ''request'' ''method'' (JStr '''') = Inr meth" by blast
  from sub_field_ok[OF r, of "''headers''" "JObj []"] obtain headers
    where 3: "sub_field (JObj ps) ''request'' ''headers'' (JObj []) = Inr headers" by blast
  from 1 2 3 show ?thesis by (simp add: request_record_def ebind_def)
qed

lemma response_fields_ok:
  assumes "params_ok ps"
  shows "\<exists>fields. response_fields (JObj ps) = Inr fields \<and>
           map_of (dict_update entry fields) ''status'' = Some (JStr ''received'') \<and>
           map_of (dict_update entry fields) ''requestId'' = map_of entry ''requestId'' \<and>
           map_of (dict_update entry fields) ''statusCode'' = map_of fields ''statusCode'' \<and>
           map_of (dict_update entry fields) ''statusText'' = map_of fields ''statusText'' \<and>
           map_of (dict_update entry fields) ''mimeType'' = map_of fields ''mimeType'' \<and>
           map_of (dict_update entry fields) ''responseHeaders'' = map_of fields ''responseHeaders''"
proof -
  from assms have r: "case map_of ps ''response'' of None \<Rightarrow> True | Some x \<Rightarrow> is_dict x"
    by (simp add: params_ok_def)
  from sub_field_ok[OF r, of "''status''" "JInt 0"] obtain a
    where 1: "sub_field (JObj ps) ''response'' ''status'' (JInt 0) = Inr a" by blast
  from sub_field_ok[OF r, of "''statusText''" "JStr ''''"] obtain b
    where 2: "sub_field (JObj ps) ''response'' ''statusText'' (JStr '''') = Inr b" by blast
  from sub_field_ok[OF r, of "''mimeType''" "JStr ''''"] obtain c
    where 3: "sub_field (JObj ps) ''response'' ''mimeType'' (JStr '''') = Inr c" by blast
  from sub_field_ok[OF r, of "''headers''" "JObj []"] obtain d
    where 4: "sub_field (JObj ps) ''response'' ''headers'' (JObj []) = Inr d" by blast
  from 1 2 3 4 show ?thesis
    by (simp add: response_fields_def ebind_def dict_update_def update_conv')
qed

lemma ok_params:
  assumes "network_event_ok ev"
  obtains kvs ps where "ev = JObj kvs" "py_get ev ''params'' (JObj []) = Inr (JObj ps)"
    "params_ok ps"
proof (cases ev)
  case (JObj kvs)
  show ?thesis
  proof (cases "map_of kvs ''params''")
    case None
    with JObj that[of kvs "[]"] show ?thesis by (simp add: params_ok_def)
  next
    case (Some p)
    with JObj assms obtain ps where "p = JObj ps" "params_ok ps"
      by (cases p) simp_all
    with JObj Some that[of kvs ps] show ?thesis by simp
  qed
qed (use assms in simp_all)

lemma ok_request_id:
  assumes "params_ok ps"
  obtains request_id k where "py_get (JObj ps) ''requestId'' JNull = Inr request_id"
    "hash_key request_id = Inr k"
proof (cases "map_of ps ''requestId''")
  case None
  with that[of JNull JNull] show ?thesis by simp
next
  case (Some request_id)
  with assms have "hashable request_id" by (simp add: params_ok_def)
  from hashable_key[OF this] obtain k where "hash_key request_id = Inr k" by blast
  with Some that[of request_id k] show ?thesis by simp
qed

lemma not_both: "request_sent ev \<Longrightarrow> \<not> response_received ev"
  by (simp add: request_sent_def response_received_def)


lemma map_of_dict_update: "map_of (dict_update d other) = map_of d ++ map_of (rev other)"
proof (induction other arbitrary: d)
  case Nil
  then show ?case by (simp add: dict_update_def)
next
  case (Cons x other)
  obtain k v where x: "x = (k, v)" by (cases x)
  have "dict_update d (x # other) = dict_update (AList.update k v d) other"
    by (simp add: dict_update_def x)
  with Cons[of "AList.update k v d"] show ?case
    by (auto simp: x update_conv' fun_eq_iff map_add_def split: option.splits)
qed

lemma fields_of_ok:
  assumes "network_event_ok ev"
  shows "\<exists>a b c d. ebind (py_get ev ''params'' (JObj [])) response_fields = Inr (fields_of ev) \<and>
           fields_of ev =
             [(''status'', JStr ''received''), (''statusCode'', a), (''statusText'', b),
              (''mimeType'', c), (''responseHeaders'', d)]"
proof -
  from assms obtain kvs ps where ev: "ev = JObj kvs"
    and p: "py_get ev ''params'' (JObj []) = Inr (JObj ps)" and ok: "params_ok ps"
    by (rule ok_params)
  from ok have r: "case map_of ps ''response'' of None \<Rightarrow> True | Some x \<Rightarrow> is_dict x"
    by (simp add: params_ok_def)
  from sub_field_ok[OF r, of "''status''" "JInt 0"] obtain a
    where 1: "sub_field (JObj ps) ''response'' ''status'' (JInt 0) = Inr a" by blast
  from sub_field_ok[OF r, of "''statusText''" "JStr ''''"] obtain b
    where 2: "sub_field (JObj ps) ''response'' ''statusText'' (JStr '''') = Inr b" by blast
  from sub_field_ok[OF r, of "''mimeType''" "JStr ''''"] obtain c
    where 3: "sub_field (JObj ps) ''response'' ''mimeType'' (JStr '''') = Inr c" by blast
  from sub_field_ok[OF r, of "''headers''" "JObj []"] obtain d
    where 4: "sub_field (JObj ps) ''response'' ''headers'' (JObj []) = Inr d" by blast
  from 1 2 3 4 have "response_fields (JObj ps) =
      Inr [(''status'', JStr ''received''), (''statusCode'', a), (''statusText'', b),
           (''mimeType'', c), (''responseHeaders'', d)]"
    by (simp add: response_fields_def ebind_def)
  with p show ?thesis by (simp add: fields_of_def ebind_def)
qed

lemma record_of_ok:
  assumes "network_event_ok ev" "network_key ev = Some k"
  shows "\<exists>params request_id.
           py_get ev ''params'' (JObj []) = Inr params \<and>
           py_get params ''requestId'' JNull = Inr request_id \<and> truthy request_id \<and>
           hash_key request_id = Inr k \<and>
           request_record params request_id = Inr (record_of ev) \<and>
           map_of (record_of ev) ''status'' = Some (JStr ''pending'') \<and>
           map_of (record_of ev) ''requestId'' = Some request_id"
proof -
  from assms(1) obtain kvs ps where ev: "ev = JObj kvs"
    and p: "py_get ev ''params'' (JObj []) = Inr (JObj ps)" and ok: "params_ok ps"
    by (rule ok_params)
  from ok obtain request_id k' where rid: "py_get (JObj ps) ''requestId'' JNull = Inr request_id"
    and k: "hash_key request_id = Inr k'"
    by (rule ok_request_id)
  from assms(2) p rid k have t: "truthy request_id" "k' = k"
    by (simp_all add: network_key_def param_field_def ebind_def split: if_splits)
  from request_record_ok[OF ok, of request_id] obtain entry
    where entry: "request_record (JObj ps) request_id = Inr entry"
      "map_of entry ''status'' = Some (JStr ''pending'')"
      "map_of entry ''requestId'' = Some request_id"
    by blast
  from p rid entry(1) have "record_of ev = entry" by (simp add: record_of_def ebind_def)
  with p rid k t entry show ?thesis by simp
qed

lemma network_key_None:
  assumes "network_event_ok ev" "network_key ev = None"
  shows "\<exists>params request_id.
           py_get ev ''params'' (JObj []) = Inr params \<and>
           py_get params ''requestId'' JNull = Inr request_id \<and> \<not> truthy request_id"
proof -
  from assms(1) obtain kvs ps where ev: "ev = JObj kvs"
    and p: "py_get ev ''params'' (JObj []) = Inr (JObj ps)" and ok: "params_ok ps"
    by (rule ok_params)
  from ok obtain request_id k' where rid: "py_get (JObj ps) ''requestId'' JNull = Inr request_id"
    and k: "hash_key request_id = Inr k'"
    by (rule ok_request_id)
  from assms(2) p rid k have "\<not> truthy request_id"
    by (simp add: network_key_def param_field_def ebind_def split: if_splits)
  with p rid show ?thesis by simp
qed

lemma network_event_char:
  assumes "network_event_ok ev"
  shows "network_event rm ev =
       Inr (if request_sent ev
            then (case network_key ev of None \<Rightarrow> rm | Some k \<Rightarrow> AList.update k (record_of ev) rm)
            else if response_received ev
            then (case network_key ev of
                    None \<Rightarrow> rm
                  | Some k \<Rightarrow>
                      (case map_of rm k of
                         None \<Rightarrow> rm
                       | Some e \<Rightarrow> AList.update k (dict_update e (fields_of ev)) rm))
            else rm)"
proof -
  from assms obtain kvs where ev: "ev = JObj kvs" by (cases ev) simp_all
  then obtain m where m: "py_get ev ''method'' JNull = Inr m" by simp
  show ?thesis
  proof (cases "network_key ev")
    case None
    from network_key_None[OF assms None] obtain params request_id where
      "py_get ev ''params'' (JObj []) = Inr params"
      "py_get params ''requestId'' JNull = Inr request_id" "\<not> truthy request_id"
      by blast
    with m None show ?thesis
      by (simp add: network_event_def request_sent_def response_received_def ebind_def)
  next
    case (Some k)
    from record_of_ok[OF assms Some] obtain params request_id where
      r: "py_get ev ''params'' (JObj []) = Inr params"
      "py_get params ''requestId'' JNull = Inr request_id" "truthy request_id"
      "hash_key request_id = Inr k"
      "request_record params request_id = Inr (record_of ev)"
      by blast
    from fields_of_ok[OF assms] r(1) have f: "response_fields params = Inr (fields_of ev)"
      by (auto simp: ebind_def)
    from m r f Some show ?thesis
      by (simp add: network_event_def request_sent_def response_received_def ebind_def
          split: option.splits)
  qed
qed

lemma fields_absorb:
  assumes "network_event_ok r" "network_event_ok ev"
  shows "(A ++ map_of (rev (fields_of r))) ++ map_of (rev (fields_of ev)) =
         A ++ map_of (rev (fields_of ev))"
proof -
  from fields_of_ok[OF assms(1)] obtain a b c d where
    r: "fields_of r = [(''status'', JStr ''received''), (''statusCode'', a), (''statusText'', b),
              (''mimeType'', c), (''responseHeaders'', d)]" by blast
  from fields_of_ok[OF assms(2)] obtain a' b' c' d' where
    e: "fields_of ev = [(''status'', JStr ''received''), (''statusCode'', a'), (''statusText'', b'),
              (''mimeType'', c'), (''responseHeaders'', d')]" by blast
  show ?thesis unfolding r e
    by (auto simp: fun_eq_iff map_add_def)
qed

lemma merge_record_status:
  assumes "network_event_ok rq" "network_key rq = Some k" "\<And>r. rs = Some r \<Longrightarrow> network_event_ok r"
  shows "map_of (merge_record (rq, rs)) ''status'' =
           Some (JStr (if rs = None then ''pending'' else ''received'')) \<and>
         (\<exists>request_id. map_of (merge_record (rq, rs)) ''requestId'' = Some request_id \<and>
                       hash_key request_id = Inr k)"
proof (cases rs)
  case None
  with record_of_ok[OF assms(1,2)] show ?thesis by (auto simp: merge_record_def)
next
  case (Some r)
  with assms(3) have "network_event_ok r" by simp
  from fields_of_ok[OF this] obtain a b c d where
    r: "fields_of r = [(''status'', JStr ''received''), (''statusCode'', a), (''statusText'', b),
              (''mimeType'', c), (''responseHeaders'', d)]" by blast
  from record_of_ok[OF assms(1,2)] Some show ?thesis
    by (auto simp: merge_record_def map_of_dict_update r map_add_def)
qed

lemma merge_inv_same:
  assumes "merge_inv rm stf" "\<And>k. stf' k = stf k"
  shows "merge_inv rm stf'"
  using assms by (simp add: merge_inv_def)

lemma merge_inv_update:
  assumes inv: "merge_inv rm stf"
    and e: "map_of entry = map_of (merge_record (rq, rs))"
    and ok: "network_event_ok rq" "network_key rq = Some k" "\<And>r. rs = Some r \<Longrightarrow> network_event_ok r"
    and stf': "\<And>k'. stf' k' = (if k' = k then Some (rq, rs) else stf k')"
  shows "merge_inv (AList.update k entry rm) stf'"
  unfolding merge_inv_def
proof (intro conjI allI impI)
  from inv show "distinct (map fst (AList.update k entry rm))"
    by (simp add: merge_inv_def distinct_update)
next
  fix k'
  from inv e show "map_option map_of (map_of (AList.update k entry rm) k') =
                   map_option (\<lambda>p. map_of (merge_record p)) (stf' k')"
    by (simp add: merge_inv_def update_conv' stf')
next
  fix k' rq' rs'
  assume "stf' k' = Some (rq', rs')"
  with inv ok show "network_event_ok rq'" "network_key rq' = Some k'"
    by (auto simp: merge_inv_def stf' split: if_splits)
next
  fix k' rq' rs' r
  assume "stf' k' = Some (rq', rs')" "rs' = Some r"
  with inv ok show "network_event_ok r"
    by (auto simp: merge_inv_def stf' split: if_splits)
qed

lemma merge_inv_lookup:
  assumes "merge_inv rm stf"
  shows "(map_of rm k = None) = (stf k = None)"
    and "map_of rm k = Some e \<Longrightarrow>
           \<exists>rq rs. stf k = Some (rq, rs) \<and> map_of e = map_of (merge_record (rq, rs)) \<and>
                   network_event_ok rq \<and> network_key rq = Some k \<and>
                   (\<forall>r. rs = Some r \<longrightarrow> network_event_ok r)"
proof -
  from assms have 2: "map_option map_of (map_of rm k) = map_option (\<lambda>p. map_of (merge_record p)) (stf k)"
    by (simp add: merge_inv_def)
  then show "(map_of rm k = None) = (stf k = None)"
    by (cases "map_of rm k"; cases "stf k") simp_all
  assume e: "map_of rm k = Some e"
  with 2 obtain p where p: "stf k = Some p" "map_of e = map_of (merge_record p)"
    by (cases "stf k") simp_all
  obtain rq rs where "p = (rq, rs)" by (cases p)
  with p assms show "\<exists>rq rs. stf k = Some (rq, rs) \<and> map_of e = map_of (merge_record (rq, rs)) \<and>
                   network_event_ok rq \<and> network_key rq = Some k \<and>
                   (\<forall>r. rs = Some r \<longrightarrow> network_event_ok r)"
    by (auto simp: merge_inv_def)
qed

lemma network_event_inv:
  assumes ok: "network_event_ok ev" and inv: "merge_inv rm stf"
  shows "\<exists>rm'. network_event rm ev = Inr rm' \<and> merge_inv rm' (\<lambda>k. merged_step k (stf k) ev)"
proof -
  note ne = network_event_char[OF ok, of rm]
  let ?stf = "\<lambda>k. merged_step k (stf k) ev"
  show ?thesis
  proof (cases "network_key ev")
    case None
    then have same: "\<And>k. ?stf k = stf k" by (simp add: merged_step_def)
    from None ne have "network_event rm ev = Inr rm" by simp
    with merge_inv_same[OF inv same] show ?thesis by blast
  next
    case (Some k)
    show ?thesis
    proof (cases "request_sent ev")
      case True
      with Some ne have r: "network_event rm ev = Inr (AList.update k (record_of ev) rm)" by simp
      have stf': "\<And>k'. ?stf k' = (if k' = k then Some (ev, None) else stf k')"
        using True Some by (simp add: merged_step_def)
      have "map_of (record_of ev) = map_of (merge_record (ev, None))"
        by (simp add: merge_record_def)
      from merge_inv_update[OF inv this ok Some _ stf'] r show ?thesis by simp
    next
      case rs: False
      show ?thesis
      proof (cases "response_received ev")
        case False
        with rs have same: "\<And>k. ?stf k = stf k" by (simp add: merged_step_def)
        from False rs ne have "network_event rm ev = Inr rm" by simp
        with merge_inv_same[OF inv same] show ?thesis by blast
      next
        case True
        show ?thesis
        proof (cases "map_of rm k")
          case None
          with merge_inv_lookup(1)[OF inv, of k] have "stf k = None" by simp
          with rs True Some have same: "\<And>k. ?stf k = stf k" by (auto simp: merged_step_def)
          from None True rs Some ne have "network_event rm ev = Inr rm" by simp
          with merge_inv_same[OF inv same] show ?thesis by blast
        next
          case e: (Some e)
          from merge_inv_lookup(2)[OF inv e] obtain rq rs' where
            p: "stf k = Some (rq, rs')" "map_of e = map_of (merge_record (rq, rs'))"
            "network_event_ok rq" "network_key rq = Some k"
            "\<And>r. rs' = Some r \<Longrightarrow> network_event_ok r"
            by blast
          from e True rs Some ne
          have r: "network_event rm ev =
                     Inr (AList.update k (dict_update e (fields_of ev)) rm)" by simp
          have stf': "\<And>k'. ?stf k' = (if k' = k then Some (rq, Some ev) else stf k')"
            using True rs Some p(1) by (simp add: merged_step_def)
          have m: "map_of (dict_update e (fields_of ev)) = map_of (merge_record (rq, Some ev))"
          proof (cases rs')
            case None
            with p(2) show ?thesis by (simp add: merge_record_def map_of_dict_update)
          next
            case (Some r)
            with p(5) have "network_event_ok r" by simp
            from fields_absorb[OF this ok, of "map_of (record_of rq)"] Some p(2)
            show ?thesis by (simp add: merge_record_def map_of_dict_update)
          qed
          have okr: "\<And>r. Some ev = Some r \<Longrightarrow> network_event_ok r" using ok by simp
          from merge_inv_update[OF inv m p(3,4) okr stf'] r show ?thesis by simp
        qed
      qed
    qed
  qed
qed

lemma network_fold_inv:
  "list_all network_event_ok evs \<Longrightarrow> merge_inv rm stf \<Longrightarrow>
     \<exists>rm'. network_fold rm evs = Inr rm' \<and> merge_inv rm' (\<lambda>k. foldl (merged_step k) (stf k) evs)"
proof (induction evs arbitrary: rm stf)
  case Nil
  then show ?case by simp
next
  case (Cons ev evs)
  from Cons.prems have ok: "network_event_ok ev" "list_all network_event_ok evs" by simp_all
  from network_event_inv[OF ok(1) Cons.prems(2)] obtain rm1 where
    1: "network_event rm ev = Inr rm1" "merge_inv rm1 (\<lambda>k. merged_step k (stf k) ev)"
    by blast
  from Cons.IH[OF ok(2) 1(2)] 1(1) show ?case by (simp add: ebind_def)
qed

lemma merge_inv_empty: "merge_inv [] (\<lambda>k. None)"
  by (simp add: merge_inv_def)

lemma status_step_merged:
  "status_step k (map_option (\<lambda>p. if snd p = None then ''pending'' else ''received'') st) ev =
     map_option (\<lambda>p. if snd p = None then ''pending'' else ''received'') (merged_step k st ev)"
  by (cases st) (simp_all add: status_step_def merged_step_def)

lemma status_foldl_merged:
  "foldl (status_step k) (map_option (\<lambda>p. if snd p = None then ''pending'' else ''received'') st) evs =
     map_option (\<lambda>p. if snd p = None then ''pending'' else ''received'')
       (foldl (merged_step k) st evs)"
  by (induction evs arbitrary: st) (simp_all add: status_step_merged)

lemma status_for_merged:
  "status_for k evs =
     map_option (\<lambda>p. if snd p = None then ''pending'' else ''received'') (merged_for k evs)"
  using status_foldl_merged[of k None evs] by (simp add: status_for_def merged_for_def)

lemma status_for_scenarios:
  assumes "request_sent req" "network_key req = Some k"
    "response_received resp" "network_key resp = Some k"
  shows "status_for k [req] = Some ''pending'' \<and>
         status_for k [req, resp] = Some ''received'' \<and>
         status_for k [resp] = None"
  using assms not_both[of resp] by (auto simp: status_for_def status_step_def)

lemma ok_params_of:
  assumes "network_event_ok ev"
  shows "py_get ev ''params'' (JObj []) = Inr (JObj (params_of ev)) \<and> params_ok (params_of ev)"
proof -
  from assms obtain kvs ps where ev: "ev = JObj kvs"
    and p: "py_get ev ''params'' (JObj []) = Inr (JObj ps)" and ok: "params_ok ps"
    by (rule ok_params)
  from ev p have "params_of ev = ps"
    by (simp add: params_of_def field_or_def split: option.splits)
  with p ok show ?thesis by simp
qed

lemma sub_field_value:
  assumes "case map_of ps sub of None \<Rightarrow> True | Some x \<Rightarrow> is_dict x"
  shows "sub_field (JObj ps) sub k d = Inr (field_or (dict_of (field_or ps sub (JObj []))) k d)"
proof (cases "map_of ps sub")
  case None
  then show ?thesis by (simp add: sub_field_def ebind_def field_or_def)
next
  case (Some x)
  with assms show ?thesis
    by (cases x) (simp_all add: sub_field_def ebind_def field_or_def)
qed

lemma record_of_value:
  assumes "network_event_ok ev" "network_key ev = Some k"
  shows "record_of ev =
     [(''requestId'', field_or (params_of ev) ''requestId'' JNull),
      (''url'', field_or (part_of ev ''request'') ''url'' (JStr '''')),
      (''method'', field_or (part_of ev ''request'') ''method'' (JStr '''')),
      (''headers'', field_or (part_of ev ''request'') ''headers'' (JObj [])),
      (''timestamp'', field_or (params_of ev) ''timestamp'' (JInt 0)),
      (''status'', JStr ''pending''),
      (''type'', field_or (params_of ev) ''type'' (JStr ''''))]"
proof -
  from ok_params_of[OF assms(1)]
  have p: "py_get ev ''params'' (JObj []) = Inr (JObj (params_of ev))"
    and ok: "params_ok (params_of ev)" by simp_all
  from ok have r: "case map_of (params_of ev) ''request'' of None \<Rightarrow> True | Some x \<Rightarrow> is_dict x"
    by (simp add: params_ok_def)
  note sv = sub_field_value[OF r]
  show ?thesis
    using p by (simp add: record_of_def request_record_def ebind_def sv part_of_def field_or_def)
qed

lemma fields_of_value:
  assumes "network_event_ok ev"
  shows "fields_of ev =
     [(''status'', JStr ''received''),
      (''statusCode'', field_or (part_of ev ''response'') ''status'' (JInt 0)),
      (''statusText'', field_or (part_of ev ''response'') ''statusText'' (JStr '''')),
      (''mimeType'', field_or (part_of ev ''response'') ''mimeType'' (JStr '''')),
      (''responseHeaders'', field_or (part_of ev ''response'') ''headers'' (JObj []))]"
proof -
  from ok_params_of[OF assms(1)]
  have p: "py_get ev ''params'' (JObj []) = Inr (JObj (params_of ev))"
    and ok: "params_ok (params_of ev)" by simp_all
  from ok have r: "case map_of (params_of ev) ''response'' of None \<Rightarrow> True | Some x \<Rightarrow> is_dict x"
    by (simp add: params_ok_def)
  note sv = sub_field_value[OF r]
  show ?thesis
    using p by (simp add: fields_of_def response_fields_def ebind_def sv part_of_def)
qed

lemma merge_record_expected:
  assumes "network_event_ok rq" "network_key rq = Some k" "\<And>r. rs = Some r \<Longrightarrow> network_event_ok r"
  shows "map_of (merge_record (rq, rs)) = expected_record (rq, rs)"
proof (cases rs)
  case None
  then show ?thesis
    by (auto simp: merge_record_def expected_record_def record_of_value[OF assms(1,2)] fun_eq_iff)
next
  case (Some r)
  with assms(3) have "network_event_ok r" by simp
  note f = fields_of_value[OF this]
  from Some show ?thesis
    by (auto simp: merge_record_def expected_record_def record_of_value[OF assms(1,2)] f
        map_of_dict_update fun_eq_iff map_add_def)
qed

text \<open>
  Claim C5. The query is the fold \<open>network_fold\<close> over the recorded Network events,
  started from the empty map. On events of the protocol's shape it does not fail,
  and its result has one record per request identifier (distinct keys, each record
  carrying an identifier that is its key). For every identifier the record is the one
  the merge of the specification describes: none when no request-sent event with
  that identifier was recorded (a lone response is absent from the view),
  \<open>pending\<close> after a request-sent event with no later response, \<open>received\<close>
  after a later response-received event with the same identifier; its fields are
  those of the request event, and after the response also the status code, status
  text, MIME type and headers of that response.
\<close>

theorem network_request_merge:
  assumes "cdp_events g ''Network'' = Some evs" and "list_all network_event_ok evs"
  shows "\<exists>rm. network_fold [] evs = Inr rm \<and>
           fst (get_network_requests g) =
             Inr (JObj [(''requests'', JArr (map (\<lambda>kv. JObj (snd kv)) rm))]) \<and>
           distinct (map fst rm) \<and>
           (\<forall>k. map_option status_of (map_of rm k) =
                  map_option (\<lambda>s. Some (JStr s)) (status_for k evs)) \<and>
           (\<forall>k. map_option map_of (map_of rm k) =
                  map_option expected_record (merged_for k evs)) \<and>
           (\<forall>k entry. map_of rm k = Some entry \<longrightarrow>
              (\<exists>request_id. map_of entry ''requestId'' = Some request_id \<and>
                            hash_key request_id = Inr k))"
proof -
  from network_fold_inv[OF assms(2) merge_inv_empty] obtain rm where
    rm: "network_fold [] evs = Inr rm" and inv: "merge_inv rm (\<lambda>k. merged_for k evs)"
    by (auto simp: merged_for_def)
  from rm assms(1)
  have out: "fst (get_network_requests g) =
          Inr (JObj [(''requests'', JArr (map (\<lambda>kv. JObj (snd kv)) rm))])"
    by (simp add: get_network_requests_def ebind_def)
  from inv have d: "distinct (map fst rm)" by (simp add: merge_inv_def)
  have c: "map_option map_of (map_of rm k) =
             map_option expected_record (merged_for k evs)" for k
  proof (cases "map_of rm k")
    case None
    with merge_inv_lookup(1)[OF inv, of k] show ?thesis by simp
  next
    case (Some e)
    from merge_inv_lookup(2)[OF inv Some] obtain rq rs where
      p: "merged_for k evs = Some (rq, rs)" "map_of e = map_of (merge_record (rq, rs))"
      "network_event_ok rq" "network_key rq = Some k"
      "\<And>r. rs = Some r \<Longrightarrow> network_event_ok r"
      by blast
    from merge_record_expected[OF p(3,4,5)] p(1,2) Some show ?thesis by simp
  qed
  have s: "map_option status_of (map_of rm k) =
             map_option (\<lambda>s. Some (JStr s)) (status_for k evs)" for k
  proof (cases "map_of rm k")
    case None
    with merge_inv_lookup(1)[OF inv, of k] show ?thesis by (simp add: status_for_merged)
  next
    case (Some e)
    from merge_inv_lookup(2)[OF inv Some] obtain rq rs where
      p: "merged_for k evs = Some (rq, rs)" "map_of e = map_of (merge_record (rq, rs))"
      "network_event_ok rq" "network_key rq = Some k"
      "\<And>r. rs = Some r \<Longrightarrow> network_event_ok r"
      by blast
    from merge_record_status[OF p(3,4,5)] p(1,2) Some show ?thesis
      by (simp add: status_for_merged status_of_def)
  qed
  have r: "\<exists>request_id. map_of entry ''requestId'' = Some request_id \<and>
             hash_key request_id = Inr k" if "map_of rm k = Some entry" for k entry
  proof -
    from merge_inv_lookup(2)[OF inv that] obtain rq rs where
      p: "map_of entry = map_of (merge_record (rq, rs))"
      "network_event_ok rq" "network_key rq = Some k"
      "\<And>r. rs = Some r \<Longrightarrow> network_event_ok r"
      by blast
    from merge_record_status[OF p(2,3,4)] p(1) show ?thesis by simp
  qed
  from rm out d c s r show ?thesis by blast
qed

lemmas merge_eval = get_network_requests_def network_event_def request_record_def
  response_fields_def sub_field_def param_field_def ebind_def dict_update_def
  status_for_def status_step_def request_sent_def response_received_def network_key_def
  params_ok_def init_globals_def

theorem network_request_merge_witness:
  "cdp_events (init_globals\<lparr>cdp_events := [''Network'' \<mapsto> [response_R2, request_R1, response_R1]]\<rparr>)
     ''Network'' = Some [response_R2, request_R1, response_R1] \<and>
   list_all network_event_ok [response_R2, request_R1, response_R1] \<and>
   fst (get_network_requests
          (init_globals\<lparr>cdp_events := [''Network'' \<mapsto> [response_R2, request_R1, response_R1]]\<rparr>)) =
     Inr (JObj [(''requests'',
       JArr [JObj [(''requestId'', JStr ''R1''), (''url'', JStr ''http://x''),
                   (''method'', JStr ''GET''), (''headers'', JObj []),
                   (''timestamp'', JInt 0), (''status'', JStr ''received''),
                   (''type'', JStr ''''), (''statusCode'', JInt 200),
                   (''statusText'', JStr ''''), (''mimeType'', JStr ''''),
                   (''responseHeaders'', JObj [])]])]) \<and>
   status_for (JStr ''R1'') [response_R2, request_R1, response_R1] = Some ''received'' \<and>
   status_for (JStr ''R2'') [response_R2, request_R1, response_R1] = None \<and>
   status_for (JStr ''R1'') [response_R2, request_R1] = Some ''pending''"
proof -
  let ?g = "init_globals\<lparr>cdp_events := [''Network'' \<mapsto> [response_R2, request_R1, response_R1]]\<rparr>"
  have h1: "cdp_events ?g ''Network'' = Some [response_R2, request_R1, response_R1]"
    by simp
  have h2: "list_all network_event_ok [response_R2, request_R1, response_R1]"
    by (simp add: params_ok_def)
  have e: "fst (get_network_requests ?g) =
     Inr (JObj [(''requests'',
       JArr [JObj [(''requestId'', JStr ''R1''), (''url'', JStr ''http://x''),
                   (''method'', JStr ''GET''), (''headers'', JObj []),
                   (''timestamp'', JInt 0), (''status'', JStr ''received''),
                   (''type'', JStr ''''), (''statusCode'', JInt 200),
                   (''statusText'', JStr ''''), (''mimeType'', JStr ''''),
                   (''responseHeaders'', JObj [])]])])"
    by (simp add: merge_eval)
  have s: "status_for (JStr ''R1'') [response_R2, request_R1, response_R1] = Some ''received''"
    "status_for (JStr ''R2'') [response_R2, request_R1, response_R1] = None"
    "status_for (JStr ''R1'') [response_R2, request_R1] = Some ''pending''"
    by (simp_all add: merge_eval)
  from network_request_merge[OF h1 h2] h1 h2 e s show ?thesis by simp
qed

end
